theory Spec2Isabelle
  imports Main "HOL-Library.Sublist"
begin

section \<open>Python values\<close>

text \<open>
  A Python \<open>str\<close> is a sequence of Unicode code points. Isabelle's \<open>char\<close> has eight bits,
  so the byte-order mark U+FEFF and the Unicode white space that \<open>\s\<close> matches would not fit:
  a code point is a natural number and a string a list of them. \<open>str\<close> turns an ASCII
  literal of the source into such a string.
\<close>

type_synonym pychar = nat
type_synonym pystr = "pychar list"

definition str :: "string \<Rightarrow> pystr" where
  "str s = map of_char s"

text \<open>The exceptions the modelled code can raise.\<close>

datatype pyerr =
    LookupError | KeyError | IndexError | ValueError | TypeError | NameError
  | AttributeError | RuntimeError | FileNotFoundError | UnicodeDecodeError | ParseError

text \<open>
  A metadata document as \<open>json.load\<close> returns it. An object is the list of its items in
  insertion order (a Python dict has no duplicate keys). The value of a number is never
  inspected by the code.
\<close>

datatype json =
    JNull | JBool bool | JNum int | JStr pystr | JArr "json list" | JObj "(pystr \<times> json) list"

type_synonym pydict = "(pystr \<times> json) list"

definition has_key :: "pydict \<Rightarrow> pystr \<Rightarrow> bool" where
  "has_key d k = (k \<in> set (map fst d))"

definition is_str :: "json \<Rightarrow> bool" where
  "is_str v = (case v of JStr _ \<Rightarrow> True | _ \<Rightarrow> False)"

definition is_dict :: "json \<Rightarrow> bool" where
  "is_dict v = (case v of JObj _ \<Rightarrow> True | _ \<Rightarrow> False)"

definition is_list :: "json \<Rightarrow> bool" where
  "is_list v = (case v of JArr _ \<Rightarrow> True | _ \<Rightarrow> False)"

section \<open>The fragment of Python's \<open>re\<close> that the code uses\<close>

text \<open>
  The five patterns of the source are sequences of single-character classes, greedy
  \<open>+\<close> repetitions of one class, \<open>^\<close> and \<open>$\<close>, with at most one group. \<open>\s\<close> on a
  \<open>str\<close> pattern is Unicode white space; \<open>.\<close> is any character but a newline (no DOTALL
  flag); without MULTILINE \<open>^\<close> matches at position 0 only and \<open>$\<close> at the end or before a
  final newline.
\<close>

definition is_space :: "pychar \<Rightarrow> bool" where
  "is_space c = ((9 \<le> c \<and> c \<le> 13) \<or> (28 \<le> c \<and> c \<le> 32) \<or> c = 133 \<or> c = 160
     \<or> c = 5760 \<or> (8192 \<le> c \<and> c \<le> 8202) \<or> c = 8232 \<or> c = 8233 \<or> c = 8239
     \<or> c = 8287 \<or> c = 12288)"

datatype cclass = Space | NonSpace | AnyChar | Lit pychar

fun accepts :: "cclass \<Rightarrow> pychar \<Rightarrow> bool" where
  "accepts Space c = is_space c"
| "accepts NonSpace c = (\<not> is_space c)"
| "accepts AnyChar c = (c \<noteq> 10)"
| "accepts (Lit d) c = (c = d)"

datatype item = One cclass | Plus cclass | Bol | Eol

text \<open>An item with the flag \<open>True\<close> lies inside group 1.\<close>

type_synonym regex = "(item \<times> bool) list"

definition capture :: "bool \<Rightarrow> pychar \<Rightarrow> pystr \<times> pystr \<Rightarrow> pystr \<times> pystr" where
  "capture g x r = (if g then (x # fst r, snd r) else r)"

text \<open>
  \<open>rmatch p b s\<close> matches \<open>p\<close> at the start of \<open>s\<close>, where \<open>b\<close> says that \<open>s\<close> is the whole
  subject (position 0). It returns the text of group 1 and what is left of \<open>s\<close> after the
  match. A greedy \<open>+\<close> first tries to take one more character and gives it back only when
  the rest of the pattern fails: the order of a backtracking matcher.
\<close>

fun rmatch :: "regex \<Rightarrow> bool \<Rightarrow> pystr \<Rightarrow> (pystr \<times> pystr) option" where
  "rmatch [] b s = Some ([], s)"
| "rmatch ((Bol, g) # p) b s = (if b then rmatch p b s else None)"
| "rmatch ((Eol, g) # p) b s = (if s = [] \<or> s = [10] then rmatch p b s else None)"
| "rmatch ((One c, g) # p) b [] = None"
| "rmatch ((One c, g) # p) b (x # s) =
     (if accepts c x then map_option (capture g x) (rmatch p False s) else None)"
| "rmatch ((Plus c, g) # p) b [] = None"
| "rmatch ((Plus c, g) # p) b (x # s) =
     (if accepts c x
      then (case rmatch ((Plus c, g) # p) False s of
              Some r \<Rightarrow> Some (capture g x r)
            | None \<Rightarrow> map_option (capture g x) (rmatch p False s))
      else None)"

text \<open>The replacement templates of the source: a literal, or \<open>\1\<close>.\<close>

datatype repl = Literal pystr | Group1

fun expand :: "repl \<Rightarrow> pystr \<Rightarrow> pystr" where
  "expand (Literal t) g = t"
| "expand Group1 g = g"

text \<open>
  \<open>re.sub\<close>: scan from the left; where the pattern matches, emit the replacement and go on
  after the match; elsewhere copy one character. None of the patterns below matches the
  empty string; for such a match the replacement is emitted and one character copied.
\<close>

function re_sub_from :: "regex \<Rightarrow> repl \<Rightarrow> bool \<Rightarrow> pystr \<Rightarrow> pystr" where
  "re_sub_from p r b s =
     (case rmatch p b s of
        Some (g, rest) \<Rightarrow>
          if length rest < length s then expand r g @ re_sub_from p r False rest
          else expand r g @ (case s of [] \<Rightarrow> [] | x # s' \<Rightarrow> x # re_sub_from p r False s')
      | None \<Rightarrow> (case s of [] \<Rightarrow> [] | x # s' \<Rightarrow> x # re_sub_from p r False s'))"
  by pat_completeness auto
termination
  by (relation "measure (\<lambda>(p, r, b, s). length s)") auto

definition re_sub :: "regex \<Rightarrow> repl \<Rightarrow> pystr \<Rightarrow> pystr" where
  "re_sub p r s = re_sub_from p r True s"

section \<open>Text scrubbing: \<open>Algorithm._quick_scrub\<close>\<close>

text \<open>
  \<open>str.lower\<close>, \<open>bytes.decode\<close>, the codecs and \<open>xml.etree\<close> are library code whose
  tables (Unicode case mapping, UTF-8, code pages) are not part of the repository; so is
  the address parser that \<open>DataProcess\<close> is given. They are fields of the environment that
  every operation takes: \<open>codec_decodes enc bs\<close> says that the bytes decode under the
  encoding without error, \<open>parse_xml enc bs\<close> is the parsed tree, given as the list of
  elements that \<open>root.iter(tag)\<close> yields for a tag, and \<open>address_parser\<close> returns the
  (text, label) pairs of an address.

  An XML element is what \<open>element.find(path)\<close> answers: \<open>None\<close> when no element matches,
  otherwise the text of the first match, itself \<open>None\<close> for an element without text.
\<close>

type_synonym element = "pystr \<Rightarrow> pystr option option"

record env =
  lower :: "pystr \<Rightarrow> pystr"
  utf8_decode :: "nat list \<Rightarrow> pystr option"
  codec_decodes :: "pystr \<Rightarrow> nat list \<Rightarrow> bool"
  parse_xml :: "pystr \<Rightarrow> nat list \<Rightarrow> (json \<Rightarrow> element list) option"
  address_parser :: "pystr \<Rightarrow> (pystr \<times> pystr) list"

text \<open>\<open>r"\s+"\<close>, \<open>r"^\s+([^\s].+)"\<close>, \<open>r"(.+[^\s])\s+$"\<close> and \<open>r"^\s+$"\<close>.\<close>

definition rx_spaces :: regex where
  "rx_spaces = [(Plus Space, False)]"

definition rx_leading :: regex where
  "rx_leading = [(Bol, False), (Plus Space, False), (One NonSpace, True), (Plus AnyChar, True)]"

definition rx_trailing :: regex where
  "rx_trailing = [(Plus AnyChar, True), (One NonSpace, True), (Plus Space, False), (Eol, False)]"

definition rx_blank :: regex where
  "rx_blank = [(Bol, False), (Plus Space, False), (Eol, False)]"

definition quick_scrub :: "env \<Rightarrow> pystr \<Rightarrow> pystr" where
  "quick_scrub E entry =
     (let entry = re_sub rx_spaces (Literal [32]) entry;
          entry = re_sub rx_leading Group1 entry;
          entry = re_sub rx_trailing Group1 entry;
          entry = re_sub rx_blank (Literal []) entry
      in lower E entry)"

text \<open>The entry may be a byte string, which is decoded first.\<close>

datatype entry = Text pystr | Binary "nat list"

definition quick_scrub_entry :: "env \<Rightarrow> entry \<Rightarrow> pyerr + pystr" where
  "quick_scrub_entry E e =
     (case e of
        Binary bs \<Rightarrow>
          (case utf8_decode E bs of
             None \<Rightarrow> Inl UnicodeDecodeError
           | Some s \<Rightarrow> Inr (quick_scrub E s))
      | Text s \<Rightarrow> Inr (quick_scrub E s))"

section \<open>Constants of \<open>Algorithm\<close>\<close>

definition FIELD_LABEL :: "pystr list" where
  "FIELD_LABEL = map str
     [''bus_name'', ''trade_name'', ''bus_type'', ''bus_no'', ''bus_desc'',
      ''lic_type'', ''lic_no'', ''bus_start_date'', ''bus_cease_date'', ''active'',
      ''full_addr'',
      ''house_number'', ''road'', ''postcode'', ''unit'', ''city'', ''prov'', ''country'',
      ''phone'', ''fax'', ''email'', ''website'', ''tollfree'',
      ''comdist'', ''region'',
      ''longitude'',
      ''latitude'',
      ''no_employed'', ''no_seasonal_emp'', ''no_full_emp'', ''no_part_emp'', ''emp_range'',
      ''home_bus'', ''munic_bus'', ''nonres_bus'',
      ''exports'', ''exp_cn_1'', ''exp_cn_2'', ''exp_cn_3'',
      ''naics_2'', ''naics_3'', ''naics_4'', ''naics_5'', ''naics_6'',
      ''naics_desc'',
      ''qc_cae_1'', ''qc_cae_desc_1'', ''qc_cae_2'', ''qc_cae_desc_2'',
      ''facebook'', ''twitter'', ''linkedin'', ''youtube'', ''instagram'']"

definition ADDR_FIELD_LABEL :: "pystr list" where
  "ADDR_FIELD_LABEL = map str
     [''unit'', ''house_number'', ''road'', ''city'', ''prov'', ''country'', ''postcode'']"

definition FORCE_LABEL :: "pystr list" where
  "FORCE_LABEL = map str [''city'', ''prov'', ''country'']"

definition ENCODING_LIST :: "pystr list" where
  "ENCODING_LIST = map str [''utf-8'', ''cp1252'', ''cp437'']"

definition ADDR_LABEL_TO_POSTAL :: "(pystr \<times> pystr) list" where
  "ADDR_LABEL_TO_POSTAL =
     [(str ''house_number'', str ''house_number''),
      (str ''road'', str ''road''),
      (str ''unit'', str ''unit''),
      (str ''city'', str ''city''),
      (str ''prov'', str ''state''),
      (str ''country'', str ''country''),
      (str ''postcode'', str ''postcode'')]"

section \<open>The source dataset: \<open>Source\<close>\<close>

text \<open>
  \<open>Source.__init__\<close> loads the metadata document and sets the three paths and the label
  map to \<open>None\<close>. The metadata is the object at the top of the document, given by its
  items.
\<close>

record source =
  metadata :: pydict
  rawpath :: "pystr option"
  dirtypath :: "pystr option"
  cleanpath :: "pystr option"
  label_map :: "pydict option"

definition Source_init :: "pydict \<Rightarrow> source" where
  "Source_init md =
     \<lparr>metadata = md, rawpath = None, dirtypath = None, cleanpath = None, label_map = None\<rparr>"

subsection \<open>\<open>str.split\<close> and \<open>str.join\<close> on a one-character separator\<close>

fun split_on :: "pychar \<Rightarrow> pystr \<Rightarrow> pystr list" where
  "split_on c [] = [[]]"
| "split_on c (x # xs) =
     (if x = c then [] # split_on c xs
      else (let ps = split_on c xs in (x # hd ps) # tl ps))"

fun join :: "pychar \<Rightarrow> pystr list \<Rightarrow> pystr" where
  "join c [] = []"
| "join c [p] = p"
| "join c (p # q # ps) = p @ c # join c (q # ps)"

subsection \<open>\<open>Source.parse\<close>\<close>

text \<open>
  The checks in the order of the source, one definition for each of its blocks. A check
  that raises is \<open>Inl\<close> of the exception.
\<close>

text \<open>\<open>k in d and not isinstance(d[k], T)\<close>\<close>

definition present_not :: "pydict \<Rightarrow> pystr \<Rightarrow> (json \<Rightarrow> bool) \<Rightarrow> bool" where
  "present_not d k T = (case map_of d k of None \<Rightarrow> False | Some v \<Rightarrow> \<not> T v)"

text \<open>\<open>i in v\<close> for a value that an earlier check has found to be a dict.\<close>

definition in_dict :: "json option \<Rightarrow> pystr \<Rightarrow> bool" where
  "in_dict v i = (case v of Some (JObj d) \<Rightarrow> has_key d i | _ \<Rightarrow> False)"

text \<open>Required tags and their types: the format, the file name and the info object.\<close>

definition required_tags :: "pydict \<Rightarrow> pyerr + (pystr \<times> pystr \<times> pydict)" where
  "required_tags md =
     (case map_of md (str ''format'') of
        None \<Rightarrow> Inl LookupError
      | Some fmt \<Rightarrow>
         (case map_of md (str ''file'') of
            None \<Rightarrow> Inl LookupError
          | Some file \<Rightarrow>
             (case map_of md (str ''info'') of
                None \<Rightarrow> Inl LookupError
              | Some info \<Rightarrow>
                 (case fmt of
                    JStr f \<Rightarrow>
                     (case file of
                        JStr filename \<Rightarrow>
                         (case info of JObj i \<Rightarrow> Inr (f, filename, i) | _ \<Rightarrow> Inl TypeError)
                      | _ \<Rightarrow> Inl TypeError)
                  | _ \<Rightarrow> Inl TypeError))))"

text \<open>Required formats, the header of a format other than csv, the url.\<close>

definition check_format :: "pydict \<Rightarrow> pystr \<Rightarrow> pyerr + unit" where
  "check_format md f =
     (if f \<noteq> str ''xml'' \<and> f \<noteq> str ''csv'' then Inl ValueError
      else if f \<noteq> str ''csv'' \<and> \<not> has_key md (str ''header'') then Inl LookupError
      else if f \<noteq> str ''csv'' \<and> present_not md (str ''header'') is_str then Inl TypeError
      else if present_not md (str ''url'') is_str then Inl TypeError
      else Inr ())"

fun check_address_keys :: "pystr list \<Rightarrow> pyerr + unit" where
  "check_address_keys [] = Inr ()"
| "check_address_keys (i # ks) =
     (if i \<notin> set ADDR_FIELD_LABEL then Inl ValueError else check_address_keys ks)"

text \<open>Not both \<open>full_addr\<close> and \<open>address\<close>; \<open>address\<close> an object with valid tags.\<close>

definition check_address :: "pydict \<Rightarrow> pyerr + unit" where
  "check_address info =
     (if has_key info (str ''address'') \<and> has_key info (str ''full_addr'') then Inl ValueError
      else (case map_of info (str ''address'') of
              None \<Rightarrow> Inr ()
            | Some (JObj a) \<Rightarrow> check_address_keys (map fst a)
            | Some _ \<Rightarrow> Inl TypeError))"

fun check_force_keys :: "pydict \<Rightarrow> pystr list \<Rightarrow> pyerr + unit" where
  "check_force_keys info [] = Inr ()"
| "check_force_keys info (i # ks) =
     (if i \<notin> set FORCE_LABEL then Inl ValueError
      else if has_key info (str ''address'') \<and> in_dict (map_of info (str ''address'')) i
      then Inl ValueError
      else check_force_keys info ks)"

text \<open>\<open>force\<close> an object with valid tags.\<close>

definition check_force :: "pydict \<Rightarrow> pydict \<Rightarrow> pyerr + unit" where
  "check_force md info =
     (case map_of md (str ''force'') of
        None \<Rightarrow> Inr ()
      | Some (JObj fo) \<Rightarrow> check_force_keys info (map fst fo)
      | Some _ \<Rightarrow> Inl TypeError)"

text \<open>The name of the file without its last extension.\<close>

definition strip_ext :: "pystr \<Rightarrow> pystr" where
  "strip_ext filename =
     (if length (split_on 46 filename) = 1 then filename
      else join 46 (butlast (split_on 46 filename)))"

definition set_paths :: "source \<Rightarrow> pystr \<Rightarrow> source" where
  "set_paths self filename =
     self\<lparr>rawpath := Some (str ''./pddir/raw/'' @ filename),
          dirtypath := Some (str ''./pddir/dirty/'' @ strip_ext filename @ str ''-dirty.csv''),
          cleanpath := Some (str ''./pddir/clean/'' @ strip_ext filename @ str ''-clean.csv'')\<rparr>"

definition Source_parse :: "source \<Rightarrow> pyerr + source" where
  "Source_parse self =
     (case required_tags (metadata self) of
        Inl e \<Rightarrow> Inl e
      | Inr (f, filename, info) \<Rightarrow>
         (case check_format (metadata self) f of
            Inl e \<Rightarrow> Inl e
          | Inr _ \<Rightarrow>
             (case check_address info of
                Inl e \<Rightarrow> Inl e
              | Inr _ \<Rightarrow>
                 (case check_force (metadata self) info of
                    Inl e \<Rightarrow> Inl e
                  | Inr _ \<Rightarrow> Inr (set_paths self filename)))))"

subsection \<open>The structural rules of the metadata schema, as the specification words them\<close>

definition info_of :: "pydict \<Rightarrow> pydict" where
  "info_of md = (case map_of md (str ''info'') of Some (JObj i) \<Rightarrow> i | _ \<Rightarrow> [])"

definition rule_required :: "pydict \<Rightarrow> bool" where
  "rule_required md =
     (present_not md (str ''format'') is_str = False \<and> has_key md (str ''format'')
      \<and> present_not md (str ''file'') is_str = False \<and> has_key md (str ''file'')
      \<and> present_not md (str ''info'') is_dict = False \<and> has_key md (str ''info''))"

definition rule_format :: "pydict \<Rightarrow> bool" where
  "rule_format md =
     (map_of md (str ''format'') = Some (JStr (str ''csv''))
      \<or> map_of md (str ''format'') = Some (JStr (str ''xml'')))"

definition rule_header :: "pydict \<Rightarrow> bool" where
  "rule_header md =
     (map_of md (str ''format'') = Some (JStr (str ''xml'')) \<longrightarrow>
        has_key md (str ''header'') \<and> \<not> present_not md (str ''header'') is_str)"

definition rule_url :: "pydict \<Rightarrow> bool" where
  "rule_url md = (\<not> present_not md (str ''url'') is_str)"

definition rule_exclusive :: "pydict \<Rightarrow> bool" where
  "rule_exclusive md =
     (\<not> (has_key (info_of md) (str ''address'') \<and> has_key (info_of md) (str ''full_addr'')))"

definition rule_address :: "pydict \<Rightarrow> bool" where
  "rule_address md =
     (case map_of (info_of md) (str ''address'') of
        None \<Rightarrow> True
      | Some (JObj a) \<Rightarrow> set (map fst a) \<subseteq> set ADDR_FIELD_LABEL
      | Some _ \<Rightarrow> False)"

definition rule_force :: "pydict \<Rightarrow> bool" where
  "rule_force md =
     (case map_of md (str ''force'') of
        None \<Rightarrow> True
      | Some (JObj fo) \<Rightarrow>
          set (map fst fo) \<subseteq> set FORCE_LABEL
          \<and> (\<forall>k \<in> set (map fst fo). \<not> in_dict (map_of (info_of md) (str ''address'')) k)
      | Some _ \<Rightarrow> False)"

definition schema_ok :: "pydict \<Rightarrow> bool" where
  "schema_ok md =
     (rule_required md \<and> rule_format md \<and> rule_header md \<and> rule_url md
      \<and> rule_exclusive md \<and> rule_address md \<and> rule_force md)"




section \<open>Files\<close>

text \<open>
  The file system holds the raw files as bytes and the CSV files that the \<open>csv\<close> module
  reads and writes as their rows of cells; \<open>stdout\<close> collects what \<open>print\<close> reports. An
  operation returns how it ended together with the new state.
\<close>

type_synonym rows = "pystr list list"

record world =
  raw_files :: "pystr \<rightharpoonup> nat list"
  csv_files :: "pystr \<rightharpoonup> rows"
  stdout :: "json list"

datatype outcome = Returned | Raised pyerr

text \<open>\<open>open(path, 'w')\<close> followed by the rows written so far.\<close>

definition write_csv :: "pystr \<Rightarrow> rows \<Rightarrow> world \<Rightarrow> world" where
  "write_csv path content w = w\<lparr>csv_files := (csv_files w)(path \<mapsto> content)\<rparr>"

text \<open>\<open>os.rename(src, dst)\<close> of an existing CSV file.\<close>

definition rename :: "pystr \<Rightarrow> pystr \<Rightarrow> world \<Rightarrow> world" where
  "rename src dst w = w\<lparr>csv_files := ((csv_files w)(dst := csv_files w src))(src := None)\<rparr>"

section \<open>Encoding detection: \<open>Algorithm.char_encode_check\<close>\<close>

text \<open>The loop over \<open>ENCODING_LIST\<close>, which returns the first encoding that decodes.\<close>

fun try_encodings :: "env \<Rightarrow> nat list \<Rightarrow> pystr list \<Rightarrow> pyerr + pystr" where
  "try_encodings E bs [] = Inl RuntimeError"
| "try_encodings E bs (enc # encs) =
     (if codec_decodes E enc bs then Inr enc else try_encodings E bs encs)"

text \<open>
  With a declared encoding the source evaluates \<open>metadata.data['encoding']\<close>. The metadata
  is the dict that \<open>json.load\<close> returned, and a dict has no attribute \<open>data\<close>: the branch
  raises \<open>AttributeError\<close> before it looks at the value.
\<close>

definition char_encode_check :: "env \<Rightarrow> world \<Rightarrow> source \<Rightarrow> pyerr + pystr" where
  "char_encode_check E w source =
     (if has_key (metadata source) (str ''encoding'') then Inl AttributeError
      else (case map_of (metadata source) (str ''file'') of
              None \<Rightarrow> Inl KeyError
            | Some (JStr file) \<Rightarrow>
               (case raw_files w (str ''./pddir/raw/'' @ file) of
                  None \<Rightarrow> Inl FileNotFoundError
                | Some bs \<Rightarrow> try_encodings E bs ENCODING_LIST)
            | Some _ \<Rightarrow> Inl TypeError))"

section \<open>Structural repair of a CSV file: \<open>CSV_Algorithm.format_correction\<close>\<close>

text \<open>\<open>r"^\ufeff(.+)"\<close>\<close>

definition rx_bom :: regex where
  "rx_bom = [(Bol, False), (One (Lit 65279), False), (Plus AnyChar, True)]"

text \<open>\<open>while len(row) < size: row.append("")\<close>\<close>

function pad_row :: "nat \<Rightarrow> pystr list \<Rightarrow> pystr list" where
  "pad_row sz row = (if length row < sz then pad_row sz (row @ [[]]) else row)"
  by pat_completeness auto
termination
  by (relation "measure (\<lambda>(sz, row). sz - length row)") auto

text \<open>
  The loop over the rows that \<open>csv.reader\<close> yields, with its three variables (\<open>sz\<close> is
  \<open>size\<close>) and the rows written so far. \<open>row[0]\<close> of a first row without cells raises \<open>IndexError\<close>.
\<close>

fun format_rows :: "bool \<Rightarrow> bool \<Rightarrow> nat \<Rightarrow> rows \<Rightarrow> rows \<Rightarrow> pyerr + rows" where
  "format_rows first_row flag sz [] out = Inr out"
| "format_rows first_row flag sz (row # reader) out =
     (if first_row \<and> row = [] then Inl IndexError
      else (let row = (if first_row then re_sub rx_bom Group1 (hd row) # tl row else row)
            in if flag then format_rows False flag sz reader (out @ [pad_row sz row])
               else format_rows False True (length row) reader (out @ [row])))"

definition format_correction :: "rows \<Rightarrow> pyerr + rows" where
  "format_correction reader = format_rows True False 0 reader []"

section \<open>Label extraction: \<open>extract_labels\<close>\<close>

text \<open>\<open>d[k] = v\<close> on a dict.\<close>

definition dict_set :: "pydict \<Rightarrow> pystr \<Rightarrow> json \<Rightarrow> pydict" where
  "dict_set d k v =
     (if has_key d k then map (\<lambda>(k', v'). if k' = k then (k', v) else (k', v')) d
      else d @ [(k, v)])"

text \<open>
  The locator of one field name, \<open>None\<close> when no branch of the source assigns one. The
  validator has made \<open>info\<close>, \<open>info.address\<close> and \<open>force\<close> objects where they are present.
\<close>

definition csv_locator :: "pydict \<Rightarrow> pystr \<Rightarrow> json option" where
  "csv_locator md i =
     (if has_key (info_of md) i \<and> i \<notin> set ADDR_FIELD_LABEL then map_of (info_of md) i
      else if has_key (info_of md) (str ''address'')
              \<and> in_dict (map_of (info_of md) (str ''address'')) i
      then (case map_of (info_of md) (str ''address'') of
              Some (JObj a) \<Rightarrow> map_of a i
            | _ \<Rightarrow> None)
      else if has_key md (str ''force'') \<and> in_dict (map_of md (str ''force'')) i
      then Some (JStr (str ''DPIFORCE''))
      else None)"

fun csv_labels :: "pydict \<Rightarrow> pystr list \<Rightarrow> pydict \<Rightarrow> pydict" where
  "csv_labels md [] lm = lm"
| "csv_labels md (i # labels) lm =
     csv_labels md labels (case csv_locator md i of None \<Rightarrow> lm | Some v \<Rightarrow> dict_set lm i v)"

definition CSV_extract_labels :: "source \<Rightarrow> source" where
  "CSV_extract_labels source =
     source\<lparr>label_map := Some (csv_labels (metadata source) FIELD_LABEL [])\<rparr>"

text \<open>
  The XML variant turns every locator into an XPath expression by \<open>".//" + t\<close>, which
  raises \<open>TypeError\<close> for a locator that is not a string.
\<close>

fun xpath_all :: "json list \<Rightarrow> json list \<Rightarrow> pyerr + json list" where
  "xpath_all [] acc = Inr acc"
| "xpath_all (t # ts) acc =
     (case t of
        JStr p \<Rightarrow> xpath_all ts (acc @ [JStr (str ''.//'' @ p)])
      | _ \<Rightarrow> Inl TypeError)"

definition xpath :: "json option \<Rightarrow> pyerr + json option" where
  "xpath v =
     (case v of
        Some (JStr p) \<Rightarrow> Inr (Some (JStr (str ''.//'' @ p)))
      | _ \<Rightarrow> Inl TypeError)"

definition xml_locator :: "pydict \<Rightarrow> pystr \<Rightarrow> pyerr + json option" where
  "xml_locator md i =
     (if has_key (info_of md) i \<and> i \<notin> set ADDR_FIELD_LABEL \<and> i \<noteq> str ''address''
      then (case map_of (info_of md) i of
              Some (JArr ts) \<Rightarrow> map_sum id (\<lambda>l. Some (JArr l)) (xpath_all ts [])
            | v \<Rightarrow> xpath v)
      else if has_key (info_of md) (str ''address'')
              \<and> in_dict (map_of (info_of md) (str ''address'')) i
      then (case map_of (info_of md) (str ''address'') of
              Some (JObj a) \<Rightarrow> xpath (map_of a i)
            | _ \<Rightarrow> Inl TypeError)
      else if has_key md (str ''force'') \<and> in_dict (map_of md (str ''force'')) i
      then Inr (Some (JStr (str ''DPIFORCE'')))
      else Inr None)"

fun xml_labels :: "pydict \<Rightarrow> pystr list \<Rightarrow> pydict \<Rightarrow> pyerr + pydict" where
  "xml_labels md [] lm = Inr lm"
| "xml_labels md (i # labels) lm =
     (case xml_locator md i of
        Inl e \<Rightarrow> Inl e
      | Inr None \<Rightarrow> xml_labels md labels lm
      | Inr (Some v) \<Rightarrow> xml_labels md labels (dict_set lm i v))"

definition XML_extract_labels :: "source \<Rightarrow> pyerr + source" where
  "XML_extract_labels source =
     (case xml_labels (metadata source) FIELD_LABEL [] of
        Inl e \<Rightarrow> Inl e
      | Inr l \<Rightarrow> Inr (source\<lparr>label_map := Some l\<rparr>))"

section \<open>Support functions of \<open>parse\<close>\<close>

text \<open>\<open>list.index\<close>, called where the element is known to occur.\<close>

fun index_of :: "'a list \<Rightarrow> 'a \<Rightarrow> nat" where
  "index_of [] y = 0"
| "index_of (x # xs) y = (if x = y then 0 else Suc (index_of xs y))"

text \<open>\<open>row.pop(ind)\<close> and \<open>row.insert(ind, atag)\<close>\<close>

definition pop :: "'a list \<Rightarrow> nat \<Rightarrow> 'a list" where
  "pop row ind = take ind row @ drop (Suc ind) row"

definition insert_at :: "nat \<Rightarrow> 'a \<Rightarrow> 'a list \<Rightarrow> 'a list" where
  "insert_at ind x row = take ind row @ x # drop ind row"

definition generateFirstRow :: "pydict \<Rightarrow> pystr list" where
  "generateFirstRow tags =
     (let row = map fst tags
      in if str ''full_addr'' \<in> set row
         then (let ind = index_of row (str ''full_addr'')
               in fold (insert_at ind) (rev ADDR_FIELD_LABEL) (pop row ind))
         else row)"

fun isRowEmpty :: "pystr list \<Rightarrow> bool" where
  "isRowEmpty [] = True"
| "isRowEmpty (element # row) = (if element \<noteq> [] then False else isRowEmpty row)"

text \<open>
  The loop over \<open>ADDR_FIELD_LABEL\<close> that the source repeats in its four \<open>full_addr\<close>
  branches: it appends to the row one cell for each address field.
\<close>

fun append_address :: "(pystr \<times> pystr) list \<Rightarrow> pystr list \<Rightarrow> pystr list \<Rightarrow> pyerr + pystr list"
  where
  "append_address ap_entry [] row = Inr row"
| "append_address ap_entry (afl # afls) row =
     (case map_of ADDR_LABEL_TO_POSTAL afl of
        None \<Rightarrow> Inl KeyError
      | Some label \<Rightarrow>
         (if label \<in> set (map snd ap_entry)
          then (let ind = index_of (map snd ap_entry) label
                in append_address ap_entry afls (row @ [fst (ap_entry ! ind)]))
          else append_address ap_entry afls (row @ [[]])))"

section \<open>The CSV transformer: \<open>CSV_Algorithm.parse\<close>\<close>

text \<open>
  A record as \<open>csv.DictReader\<close> builds it: the cells under the names of the header, a cell
  being \<open>None\<close> where the row is shorter than the header, and the cells beyond the header
  as a list under the key \<open>None\<close>. Rows without cells are skipped.
\<close>

record entity =
  cols :: "pystr \<rightharpoonup> pystr option"
  rest :: "pystr list option"

definition dict_row :: "pystr list \<Rightarrow> pystr list \<Rightarrow> entity" where
  "dict_row fieldnames row =
     (let d = fold (\<lambda>(k, v) d. d(k \<mapsto> Some v)) (zip fieldnames row) Map.empty;
          lf = length fieldnames;
          lr = length row
      in if lf < lr then \<lparr>cols = d, rest = Some (drop lf row)\<rparr>
         else \<lparr>cols = fold (\<lambda>k d. d(k \<mapsto> None)) (drop lr fieldnames) d, rest = None\<rparr>)"

fun DictReader :: "rows \<Rightarrow> entity list" where
  "DictReader [] = []"
| "DictReader (fieldnames # reader) =
     map (dict_row fieldnames) (filter (\<lambda>row. row \<noteq> []) reader)"

text \<open>
  \<open>entity[i]\<close> where a string is needed. A name that is no key raises \<open>KeyError\<close>; a list or
  an object is unhashable and \<open>None\<close> or a list is no string, which raise \<open>TypeError\<close>.
\<close>

definition entity_text :: "entity \<Rightarrow> json \<Rightarrow> pyerr + pystr" where
  "entity_text entity i =
     (case i of
        JStr s \<Rightarrow>
         (case cols entity s of
            None \<Rightarrow> Inl KeyError
          | Some None \<Rightarrow> Inl TypeError
          | Some (Some v) \<Rightarrow> Inr v)
      | JNull \<Rightarrow> (case rest entity of None \<Rightarrow> Inl KeyError | Some _ \<Rightarrow> Inl TypeError)
      | JBool _ \<Rightarrow> Inl KeyError
      | JNum _ \<Rightarrow> Inl KeyError
      | JArr _ \<Rightarrow> Inl TypeError
      | JObj _ \<Rightarrow> Inl TypeError)"

definition items :: "json \<Rightarrow> json list" where
  "items v = (case v of JArr l \<Rightarrow> l | _ \<Rightarrow> [])"

text \<open>\<open>for i in tags[key]: entry += entity[i] + ' '\<close>\<close>

fun csv_concat :: "entity \<Rightarrow> json list \<Rightarrow> pystr \<Rightarrow> pyerr + pystr" where
  "csv_concat entity [] entry = Inr entry"
| "csv_concat entity (i # l) entry =
     (case entity_text entity i of
        Inl e \<Rightarrow> Inl e
      | Inr v \<Rightarrow> csv_concat entity l (entry @ v @ [32]))"

text \<open>
  The body of \<open>for key in tags\<close>. The forced branch evaluates \<open>json_data['force'][key]\<close>;
  no \<open>json_data\<close> is defined in the module, so it raises \<open>NameError\<close>.
\<close>

definition csv_field :: "env \<Rightarrow> entity \<Rightarrow> pystr \<Rightarrow> json \<Rightarrow> pystr list \<Rightarrow> pyerr + pystr list" where
  "csv_field E entity key loc row =
     (if is_list loc \<and> key \<notin> set FORCE_LABEL
      then (case csv_concat entity (items loc) [] of
              Inl e \<Rightarrow> Inl e
            | Inr entry \<Rightarrow>
               (if key \<noteq> str ''full_addr'' then Inr (row @ [quick_scrub E entry])
                else append_address (address_parser E (quick_scrub E entry))
                       ADDR_FIELD_LABEL row))
      else if key = str ''full_addr''
      then (case entity_text entity loc of
              Inl e \<Rightarrow> Inl e
            | Inr entry \<Rightarrow>
               append_address (address_parser E (quick_scrub E entry)) ADDR_FIELD_LABEL row)
      else if loc = JStr (str ''DPIFORCE'') then Inl NameError
      else (case entity_text entity loc of
              Inl e \<Rightarrow> Inl e
            | Inr entry \<Rightarrow> Inr (row @ [quick_scrub E entry])))"

text \<open>
  \<open>for key in tags\<close>, over the items of the label map; an exception is returned with
  \<open>tags[key]\<close>, which the handler of the source prints.
\<close>

fun csv_keys :: "env \<Rightarrow> entity \<Rightarrow> pydict \<Rightarrow> pystr list \<Rightarrow> (pyerr \<times> json) + pystr list" where
  "csv_keys E entity [] row = Inr row"
| "csv_keys E entity ((key, loc) # tags) row =
     (case csv_field E entity key loc row of
        Inl e \<Rightarrow> Inl (e, loc)
      | Inr row' \<Rightarrow> csv_keys E entity tags row')"

definition csv_row :: "env \<Rightarrow> pydict \<Rightarrow> entity \<Rightarrow> (pyerr \<times> json) + pystr list" where
  "csv_row E tags entity = csv_keys E entity tags []"

text \<open>\<open>for entity in csvreader\<close>, with the rows written so far.\<close>

fun csv_records :: "env \<Rightarrow> pydict \<Rightarrow> entity list \<Rightarrow> rows \<Rightarrow> (pyerr \<times> json) option \<times> rows" where
  "csv_records E tags [] out = (None, out)"
| "csv_records E tags (entity # reader) out =
     (case csv_row E tags entity of
        Inl e \<Rightarrow> (Some e, out)
      | Inr row \<Rightarrow> csv_records E tags reader (if \<not> isRowEmpty row then out @ [row] else out))"

text \<open>
  The test \<open>hasattr(source, 'label_map')\<close> at the head of \<open>parse\<close> always holds, since
  \<open>__init__\<close> sets the attribute; a label map that is still \<open>None\<close> raises \<open>TypeError\<close>
  when \<open>_generateFirstRow\<close> iterates over it, after both files have been opened.

  After the loop. A \<open>KeyError\<close> is caught: the handler prints the locator and control goes
  on to the \<open>os.rename\<close> below it. Any other exception leaves \<open>parse\<close>, and the rows written
  so far stay in the temporary file.
\<close>

definition csv_finish :: "pystr \<Rightarrow> (pyerr \<times> json) option \<Rightarrow> world \<Rightarrow> outcome \<times> world" where
  "csv_finish dp err w =
     (case err of
        None \<Rightarrow> (Returned, rename (dp @ str ''-temp'') dp w)
      | Some (e, loc) \<Rightarrow>
         (if e = KeyError
          then (Returned, rename (dp @ str ''-temp'') dp (w\<lparr>stdout := stdout w @ [loc]\<rparr>))
          else (Raised e, w)))"

definition csv_transform :: "env \<Rightarrow> pydict \<Rightarrow> pystr \<Rightarrow> rows \<Rightarrow> world \<Rightarrow> outcome \<times> world" where
  "csv_transform E tags dp content w =
     (let r = csv_records E tags (DictReader content) [generateFirstRow tags]
      in csv_finish dp (fst r) (write_csv (dp @ str ''-temp'') (snd r) w))"

definition CSV_parse :: "env \<Rightarrow> source \<Rightarrow> world \<Rightarrow> outcome \<times> world" where
  "CSV_parse E source w =
     (case map_of (metadata source) (str ''file'') of
        None \<Rightarrow> (Raised KeyError, w)
      | Some filename \<Rightarrow>
         (case char_encode_check E w source of
            Inl e \<Rightarrow> (Raised e, w)
          | Inr enc \<Rightarrow>
             (case dirtypath source of
                None \<Rightarrow> (Raised TypeError, w)
              | Some dp \<Rightarrow>
                 (case csv_files w dp of
                    None \<Rightarrow> (Raised FileNotFoundError, w)
                  | Some content \<Rightarrow>
                     (case label_map source of
                        None \<Rightarrow> (Raised TypeError, write_csv (dp @ str ''-temp'') [] w)
                      | Some tags \<Rightarrow> csv_transform E tags dp content w)))))"

section \<open>The XML transformer: \<open>XML_Algorithm.parse\<close>\<close>

definition xml_empty_element_handler :: "pystr option option \<Rightarrow> pystr" where
  "xml_empty_element_handler element =
     (case element of
        None \<Rightarrow> []
      | Some t \<Rightarrow> (case t of Some s \<Rightarrow> s | None \<Rightarrow> []))"

text \<open>
  \<open>element.find(i)\<close> followed by the handler. The label map of \<open>XML_extract_labels\<close> holds
  strings and lists of strings only; any other path is a \<open>TypeError\<close>.
\<close>

definition element_text :: "element \<Rightarrow> json \<Rightarrow> pyerr + pystr" where
  "element_text element i =
     (case i of
        JStr p \<Rightarrow> Inr (xml_empty_element_handler (element p))
      | _ \<Rightarrow> Inl TypeError)"

fun xml_concat :: "element \<Rightarrow> json list \<Rightarrow> pystr \<Rightarrow> pyerr + pystr" where
  "xml_concat element [] entry = Inr entry"
| "xml_concat element (i # l) entry =
     (case element_text element i of
        Inl e \<Rightarrow> Inl e
      | Inr v \<Rightarrow> xml_concat element l (entry @ v @ [32]))"

definition xml_field :: "env \<Rightarrow> element \<Rightarrow> pystr \<Rightarrow> json \<Rightarrow> pystr list \<Rightarrow> pyerr + pystr list" where
  "xml_field E element key loc row =
     (if is_list loc \<and> key \<notin> set FORCE_LABEL
      then (case xml_concat element (items loc) [] of
              Inl e \<Rightarrow> Inl e
            | Inr entry \<Rightarrow>
               (if key \<noteq> str ''full_addr'' then Inr (row @ [quick_scrub E entry])
                else append_address (address_parser E (quick_scrub E entry))
                       ADDR_FIELD_LABEL row))
      else if key = str ''full_addr''
      then (case element_text element loc of
              Inl e \<Rightarrow> Inl e
            | Inr entry \<Rightarrow>
               append_address (address_parser E (quick_scrub E entry)) ADDR_FIELD_LABEL row)
      else if loc = JStr (str ''DPIFORCE'') then Inl NameError
      else (case element_text element loc of
              Inl e \<Rightarrow> Inl e
            | Inr entry \<Rightarrow> Inr (row @ [quick_scrub E entry])))"

fun xml_keys :: "env \<Rightarrow> element \<Rightarrow> pydict \<Rightarrow> pystr list \<Rightarrow> pyerr + pystr list" where
  "xml_keys E element [] row = Inr row"
| "xml_keys E element ((key, loc) # tags) row =
     (case xml_field E element key loc row of
        Inl e \<Rightarrow> Inl e
      | Inr row' \<Rightarrow> xml_keys E element tags row')"

definition xml_row :: "env \<Rightarrow> pydict \<Rightarrow> element \<Rightarrow> pyerr + pystr list" where
  "xml_row E tags element = xml_keys E element tags []"

fun xml_records :: "env \<Rightarrow> pydict \<Rightarrow> element list \<Rightarrow> rows \<Rightarrow> pyerr option \<times> rows" where
  "xml_records E tags [] out = (None, out)"
| "xml_records E tags (element # iter) out =
     (case xml_row E tags element of
        Inl e \<Rightarrow> (Some e, out)
      | Inr row \<Rightarrow> xml_records E tags iter (if \<not> isRowEmpty row then out @ [row] else out))"

text \<open>The rows go to the file at \<open>dirtypath\<close> itself; no exception is caught.\<close>

definition xml_transform :: "env \<Rightarrow> pydict \<Rightarrow> pystr \<Rightarrow> element list \<Rightarrow> world \<Rightarrow> outcome \<times> world"
  where
  "xml_transform E tags dp iter w =
     (let r = xml_records E tags iter [generateFirstRow tags]
      in ((case fst r of None \<Rightarrow> Returned | Some e \<Rightarrow> Raised e), write_csv dp (snd r) w))"

definition XML_parse :: "env \<Rightarrow> source \<Rightarrow> world \<Rightarrow> outcome \<times> world" where
  "XML_parse E source w =
     (case map_of (metadata source) (str ''file'') of
        None \<Rightarrow> (Raised KeyError, w)
      | Some filename \<Rightarrow>
         (case map_of (metadata source) (str ''header'') of
            None \<Rightarrow> (Raised KeyError, w)
          | Some header \<Rightarrow>
             (case char_encode_check E w source of
                Inl e \<Rightarrow> (Raised e, w)
              | Inr enc \<Rightarrow>
                 (case rawpath source of
                    None \<Rightarrow> (Raised TypeError, w)
                  | Some rp \<Rightarrow>
                     (case raw_files w rp of
                        None \<Rightarrow> (Raised FileNotFoundError, w)
                      | Some bs \<Rightarrow>
                         (case parse_xml E enc bs of
                            None \<Rightarrow> (Raised ParseError, w)
                          | Some root \<Rightarrow>
                             (case dirtypath source of
                                None \<Rightarrow> (Raised TypeError, w)
                              | Some dp \<Rightarrow>
                                 (case label_map source of
                                    None \<Rightarrow> (Raised TypeError, write_csv dp [] w)
                                  | Some tags \<Rightarrow>
                                     xml_transform E tags dp (root header) w))))))))"

section \<open>Blank filling: \<open>Algorithm.blank_fill\<close>\<close>

definition LABELS :: "pystr list" where
  "LABELS = filter (\<lambda>i. i \<noteq> str ''full_addr'') FIELD_LABEL"

text \<open>One row of the new file; \<open>csv.writer\<close> writes \<open>None\<close> as the empty string.\<close>

definition blank_fill_row :: "entity \<Rightarrow> pystr list" where
  "blank_fill_row old_row =
     map (\<lambda>col. case cols old_row col of
                  None \<Rightarrow> []
                | Some None \<Rightarrow> []
                | Some (Some v) \<Rightarrow> v) LABELS"

definition blank_fill_rows :: "rows \<Rightarrow> rows" where
  "blank_fill_rows content = LABELS # map blank_fill_row (DictReader content)"

definition blank_fill :: "source \<Rightarrow> world \<Rightarrow> outcome \<times> world" where
  "blank_fill source w =
     (case cleanpath source of
        None \<Rightarrow> (Raised TypeError, w)
      | Some cp \<Rightarrow>
         (case csv_files w cp of
            None \<Rightarrow> (Raised FileNotFoundError, w)
          | Some content \<Rightarrow>
             (Returned,
              rename (cp @ str ''-temp'') cp
                (write_csv (cp @ str ''-temp'') (blank_fill_rows content) w))))"

section \<open>Notions of the specification\<close>

text \<open>
  The projection of a parsed address as the specification words it: for each of the seven
  columns the text of the first token that carries the column's external label, and the
  empty string when there is none.
\<close>

definition first_token :: "(pystr \<times> pystr) list \<Rightarrow> pystr \<Rightarrow> pystr" where
  "first_token ap label = (case find (\<lambda>x. snd x = label) ap of None \<Rightarrow> [] | Some x \<Rightarrow> fst x)"

definition address_columns :: "(pystr \<times> pystr) list \<Rightarrow> pystr list" where
  "address_columns ap =
     map (first_token ap)
       (map str [''unit'', ''house_number'', ''road'', ''city'', ''state'', ''country'',
                 ''postcode''])"

text \<open>The rows of the records up to the first one that fails to resolve.\<close>

fun resolved :: "('e + 'a) list \<Rightarrow> 'a list" where
  "resolved [] = []"
| "resolved (Inl e # rs) = []"
| "resolved (Inr r # rs) = r # resolved rs"

text \<open>A row of the structural repair: padded on the right up to \<open>n\<close> cells, never cut.\<close>

definition padded :: "nat \<Rightarrow> pystr list \<Rightarrow> pystr list" where
  "padded n row = row @ replicate (n - length row) []"

section \<open>Example inputs\<close>

text \<open>
  An environment with ASCII lower-casing, codecs that accept every file, an XML document
  with one \<open>biz\<close> record whose \<open>Name\<close> element reads \<open>Acme\<close>, and an address parser that
  labels the whole text as the road.
\<close>

definition example_env :: env where
  "example_env =
     \<lparr>lower = map (\<lambda>c. if 65 \<le> c \<and> c \<le> 90 then c + 32 else c),
      utf8_decode = Some,
      codec_decodes = (\<lambda>enc bs. True),
      parse_xml = (\<lambda>enc bs. Some (\<lambda>tag.
         if tag = JStr (str ''biz'')
         then [\<lambda>p. if p = str ''.//Name'' then Some (Some (str ''Acme'')) else None]
         else [])),
      address_parser = (\<lambda>s. [(s, str ''road'')])\<rparr>"

text \<open>The raw file \<open>a.csv\<close> and its repaired copy: the header \<open>Name\<close> and one record.\<close>

definition example_world :: world where
  "example_world =
     \<lparr>raw_files = [str ''./pddir/raw/a.csv'' \<mapsto> []],
      csv_files = [str ''./pddir/dirty/a-dirty.csv'' \<mapsto> [[str ''Name''], [str ''Acme'']]],
      stdout = []\<rparr>"

text \<open>A source for the file \<open>a.csv\<close> after validation, with a label map or without.\<close>

definition example_source :: "pydict \<Rightarrow> pydict option \<Rightarrow> source" where
  "example_source md tags =
     \<lparr>metadata = md,
      rawpath = Some (str ''./pddir/raw/a.csv''),
      dirtypath = Some (str ''./pddir/dirty/a-dirty.csv''),
      cleanpath = Some (str ''./pddir/clean/a-clean.csv''),
      label_map = tags\<rparr>"


text \<open>A source that declares its encoding.\<close>

definition md_encoding :: pydict where
  "md_encoding =
     [(str ''format'', JStr (str ''csv'')),
      (str ''file'', JStr (str ''a.csv'')),
      (str ''encoding'', JStr (str ''utf-8'')),
      (str ''info'', JObj [(str ''bus_name'', JStr (str ''Name''))])]"

text \<open>A source that forces the country.\<close>

definition md_force :: pydict where
  "md_force =
     [(str ''format'', JStr (str ''csv'')),
      (str ''file'', JStr (str ''a.csv'')),
      (str ''info'', JObj [(str ''bus_name'', JStr (str ''Name''))]),
      (str ''force'', JObj [(str ''country'', JStr (str ''canada''))])]"

definition md_force_xml :: pydict where
  "md_force_xml =
     [(str ''format'', JStr (str ''xml'')),
      (str ''file'', JStr (str ''a.csv'')),
      (str ''header'', JStr (str ''biz'')),
      (str ''info'', JObj [(str ''bus_name'', JStr (str ''Name''))]),
      (str ''force'', JObj [(str ''country'', JStr (str ''canada''))])]"

text \<open>A source that names a column \<open>Tel\<close>, which the file does not have.\<close>

definition md_missing :: pydict where
  "md_missing =
     [(str ''format'', JStr (str ''csv'')),
      (str ''file'', JStr (str ''a.csv'')),
      (str ''info'', JObj [(str ''bus_name'', JStr (str ''Name'')),
                           (str ''phone'', JStr (str ''Tel''))])]"

text \<open>A source with neither a full address nor an address group.\<close>

definition md_plain :: pydict where
  "md_plain =
     [(str ''format'', JStr (str ''csv'')),
      (str ''file'', JStr (str ''a.csv'')),
      (str ''info'', JObj [(str ''bus_name'', JStr (str ''Name''))])]"

section \<open>Basic facts\<close>

lemma str_eq_iff [simp]: "str a = str b \<longleftrightarrow> a = b"
  by (simp add: str_def inj_on_def)

lemma has_key_map_of: "has_key d k = (map_of d k \<noteq> None)"
  by (simp add: has_key_def map_of_eq_None_iff)

section \<open>The metadata validator\<close>

























text \<open>Each kind of error can be raised on its own.\<close>

lemma Source_parse_missing_tag:
  "Source_parse (Source_init [(str ''format'', JStr (str ''csv'')), (str ''info'', JObj [])])
   = Inl LookupError"
  by (simp add: Source_parse_def Source_init_def required_tags_def)

lemma Source_parse_wrong_type:
  "Source_parse (Source_init [(str ''format'', JStr (str ''csv'')), (str ''file'', JNum 1),
     (str ''info'', JObj [])]) = Inl TypeError"
  by (simp add: Source_parse_def Source_init_def required_tags_def)

lemma Source_parse_invalid_value:
  "Source_parse (Source_init [(str ''format'', JStr (str ''json'')),
     (str ''file'', JStr (str ''a.json'')), (str ''info'', JObj [])]) = Inl ValueError"
  by (simp add: Source_parse_def Source_init_def required_tags_def check_format_def)

section \<open>Text scrubbing\<close>

lemmas scrub_defs =
  quick_scrub_def re_sub_def rx_spaces_def rx_leading_def rx_trailing_def rx_blank_def
  is_space_def capture_def

text \<open>
  Claim C10. The scrubbing function is to collapse white space, trim both ends and
  lower-case. The code does not trim an entry that holds a single character next to white
  space: the patterns that trim ask for at least two characters of content. On \<open>" a"\<close>
  and on \<open>"a "\<close> the result is the lower-cased input, and on \<open>" a "\<close> it is the
  lower-cased \<open>"a "\<close>: the result still begins or ends with a space.
\<close>

theorem quick_scrub_keeps_space:
  "quick_scrub E (str '' a'') = lower E (str '' a'')
   \<and> quick_scrub E (str ''a '') = lower E (str ''a '')
   \<and> quick_scrub E (str '' a '') = lower E (str ''a '')
   \<and> quick_scrub example_env (str '' a'') = str '' a''"
  by (simp add: scrub_defs str_def example_env_def)

text \<open>Longer entries are trimmed, and runs of white space collapsed.\<close>

lemma quick_scrub_example:
  "quick_scrub example_env (str ''  Main   St  '') = str ''main st''"
  by (simp add: scrub_defs str_def example_env_def)

section \<open>Encoding detection\<close>

lemma try_encodings_first:
  "try_encodings E bs encs =
     (case find (\<lambda>enc. codec_decodes E enc bs) encs of
        None \<Rightarrow> Inl RuntimeError
      | Some enc \<Rightarrow> Inr enc)"
  by (induction encs) auto

text \<open>
  Without a declared encoding the detector returns the first of utf-8, cp1252 and cp437
  under which the raw file decodes, and raises \<open>RuntimeError\<close> when there is none.
\<close>

lemma char_encode_check_undeclared:
  assumes "\<not> has_key (metadata source) (str ''encoding'')"
    and "map_of (metadata source) (str ''file'') = Some (JStr file)"
    and "raw_files w (str ''./pddir/raw/'' @ file) = Some bs"
  shows "char_encode_check E w source =
     (case find (\<lambda>enc. codec_decodes E enc bs) (map str [''utf-8'', ''cp1252'', ''cp437'']) of
        None \<Rightarrow> Inl RuntimeError
      | Some enc \<Rightarrow> Inr enc)"
  using assms by (simp add: char_encode_check_def try_encodings_first ENCODING_LIST_def)

text \<open>With a declared encoding the detector raises, whatever the value and the file.\<close>

lemma char_encode_check_declared_raises:
  "has_key (metadata source) (str ''encoding'') \<Longrightarrow>
   char_encode_check E w source = Inl AttributeError"
  by (simp add: char_encode_check_def)

text \<open>
  Claim C2. A declared encoding is to be returned when it is one of utf-8, cp1252 and
  cp437, and to raise the invalid-encoding error otherwise. The code reads the declared
  value through \<open>metadata.data\<close>, an attribute that a dict does not have: with a declared
  encoding, supported or not, the detector raises \<open>AttributeError\<close>.
\<close>

theorem char_encode_check_declared:
  "char_encode_check E w (Source_init md_encoding) = Inl AttributeError
   \<and> map_of md_encoding (str ''encoding'') = Some (JStr (str ''utf-8''))
   \<and> str ''utf-8'' \<in> set ENCODING_LIST"
  by (simp add: char_encode_check_def Source_init_def md_encoding_def has_key_def
      ENCODING_LIST_def)

section \<open>Address decomposition\<close>

lemma find_index_of:
  "label \<in> set (map snd ap) \<Longrightarrow>
   find (\<lambda>x. snd x = label) ap = Some (ap ! index_of (map snd ap) label)"
  by (induction ap) auto

lemma find_absent:
  "label \<notin> set (map snd ap) \<Longrightarrow> find (\<lambda>x. snd x = label) ap = None"
  by (induction ap) auto

lemma append_address_step:
  "map_of ADDR_LABEL_TO_POSTAL afl = Some label \<Longrightarrow>
   append_address ap (afl # afls) row = append_address ap afls (row @ [first_token ap label])"
  by (simp add: first_token_def find_index_of find_absent)

lemma postal_labels:
  "map_of ADDR_LABEL_TO_POSTAL (str ''unit'') = Some (str ''unit'')"
  "map_of ADDR_LABEL_TO_POSTAL (str ''house_number'') = Some (str ''house_number'')"
  "map_of ADDR_LABEL_TO_POSTAL (str ''road'') = Some (str ''road'')"
  "map_of ADDR_LABEL_TO_POSTAL (str ''city'') = Some (str ''city'')"
  "map_of ADDR_LABEL_TO_POSTAL (str ''prov'') = Some (str ''state'')"
  "map_of ADDR_LABEL_TO_POSTAL (str ''country'') = Some (str ''country'')"
  "map_of ADDR_LABEL_TO_POSTAL (str ''postcode'') = Some (str ''postcode'')"
  by (simp_all add: ADDR_LABEL_TO_POSTAL_def)

lemma append_address_columns:
  "append_address ap ADDR_FIELD_LABEL row = Inr (row @ address_columns ap)"
  by (simp add: ADDR_FIELD_LABEL_def address_columns_def
      append_address_step[OF postal_labels(1)] append_address_step[OF postal_labels(2)]
      append_address_step[OF postal_labels(3)] append_address_step[OF postal_labels(4)]
      append_address_step[OF postal_labels(5)] append_address_step[OF postal_labels(6)]
      append_address_step[OF postal_labels(7)] del: append_address.simps(2))

lemma full_addr_not_forced: "str ''full_addr'' \<notin> set FORCE_LABEL"
  by (simp add: FORCE_LABEL_def)

lemma csv_field_full_addr:
  "csv_field E entity (str ''full_addr'') loc row = Inr row' \<Longrightarrow>
   \<exists>entry. row' = row @ address_columns (address_parser E (quick_scrub E entry))"
  by (auto simp: csv_field_def full_addr_not_forced append_address_columns
      split: if_splits sum.splits)

lemma xml_field_full_addr:
  "xml_field E element (str ''full_addr'') loc row = Inr row' \<Longrightarrow>
   \<exists>entry. row' = row @ address_columns (address_parser E (quick_scrub E entry))"
  by (auto simp: xml_field_def full_addr_not_forced append_address_columns
      split: if_splits sum.splits)

text \<open>
  Claim C4. For every token list of the address parser the decomposition appends exactly
  seven cells, in the order unit, house number, road, city, province, country, postal
  code; each cell is the text of the first token whose label is the external label of the
  column (\<open>state\<close> for the province) and the empty string when no token has that label. The
  same holds for the cells that the CSV and the XML transformer append for \<open>full_addr\<close>.
\<close>

theorem append_address_seven_cells:
  "append_address ap ADDR_FIELD_LABEL row = Inr (row @ address_columns ap)
   \<and> length (address_columns ap) = 7
   \<and> address_columns ap =
       [first_token ap (str ''unit''), first_token ap (str ''house_number''),
        first_token ap (str ''road''), first_token ap (str ''city''),
        first_token ap (str ''state''), first_token ap (str ''country''),
        first_token ap (str ''postcode'')]
   \<and> (\<forall>label. label \<notin> set (map snd ap) \<longrightarrow> first_token ap label = [])
   \<and> (\<forall>t ts label. snd t = label \<longrightarrow> first_token (t # ts) label = fst t)
   \<and> (\<forall>t ts label. snd t \<noteq> label \<longrightarrow> first_token (t # ts) label = first_token ts label)
   \<and> (\<forall>loc row'. csv_field E entity (str ''full_addr'') loc row = Inr row' \<longrightarrow>
         (\<exists>entry. row' = row @ address_columns (address_parser E (quick_scrub E entry))))
   \<and> (\<forall>loc row'. xml_field E element (str ''full_addr'') loc row = Inr row' \<longrightarrow>
         (\<exists>entry. row' = row @ address_columns (address_parser E (quick_scrub E entry))))"
proof (intro conjI allI impI)
  show "append_address ap ADDR_FIELD_LABEL row = Inr (row @ address_columns ap)"
    by (rule append_address_columns)
  show "length (address_columns ap) = 7"
    by (simp add: address_columns_def)
  show "address_columns ap =
       [first_token ap (str ''unit''), first_token ap (str ''house_number''),
        first_token ap (str ''road''), first_token ap (str ''city''),
        first_token ap (str ''state''), first_token ap (str ''country''),
        first_token ap (str ''postcode'')]"
    by (simp add: address_columns_def)
next
  fix label assume "label \<notin> set (map snd ap)"
  then show "first_token ap label = []"
    by (simp add: first_token_def find_absent)
next
  fix t :: "pystr \<times> pystr" and ts label assume "snd t = label"
  then show "first_token (t # ts) label = fst t"
    by (simp add: first_token_def)
next
  fix t :: "pystr \<times> pystr" and ts label assume "snd t \<noteq> label"
  then show "first_token (t # ts) label = first_token ts label"
    by (simp add: first_token_def)
next
  fix loc row' assume "csv_field E entity (str ''full_addr'') loc row = Inr row'"
  then show "\<exists>entry. row' = row @ address_columns (address_parser E (quick_scrub E entry))"
    by (rule csv_field_full_addr)
next
  fix loc row' assume "xml_field E element (str ''full_addr'') loc row = Inr row'"
  then show "\<exists>entry. row' = row @ address_columns (address_parser E (quick_scrub E entry))"
    by (rule xml_field_full_addr)
qed

theorem append_address_seven_cells_witness:
  "append_address [(str ''12'', str ''house_number''), (str ''main st'', str ''road''),
       (str ''elm st'', str ''road'')] ADDR_FIELD_LABEL [str ''acme'']
   = Inr [str ''acme'', [], str ''12'', str ''main st'', [], [], [], []]
   \<and> str ''unit'' \<notin> set (map snd [(str ''12'', str ''house_number'')])
   \<and> first_token [(str ''12'', str ''house_number'')] (str ''unit'') = []"
proof -
  let ?ap = "[(str ''12'', str ''house_number''), (str ''main st'', str ''road''),
       (str ''elm st'', str ''road'')]"
  have a: "append_address ?ap ADDR_FIELD_LABEL [str ''acme''] = Inr ([str ''acme''] @ address_columns ?ap)"
    using append_address_seven_cells[of ?ap "[str ''acme'']"] by blast
  have h: "str ''unit'' \<notin> set (map snd [(str ''12'', str ''house_number'')])" by simp
  have b: "first_token [(str ''12'', str ''house_number'')] (str ''unit'') = []"
    using append_address_seven_cells[of "[(str ''12'', str ''house_number'')]"] h by blast
  show ?thesis using a b h
    by (simp add: address_columns_def first_token_def)
qed

section \<open>Structural repair of a CSV file\<close>

lemma pad_row_padded: "pad_row n row = padded n row"
proof (induction n row rule: pad_row.induct)
  case (1 sz row)
  show ?case
  proof (cases "length row < sz")
    case True
    then have "pad_row sz row = padded sz (row @ [[]])"
      using 1 by simp
    also have "\<dots> = padded sz row"
      using True by (simp add: padded_def replicate_append_same Suc_diff_Suc flip: replicate_Suc)
    finally show ?thesis .
  next
    case False
    then show ?thesis by (simp add: padded_def)
  qed
qed

lemma format_rows_rest:
  "format_rows False True n rs out = Inr (out @ map (padded n) rs)"
  by (induction rs arbitrary: out) (simp_all add: pad_row_padded del: pad_row.simps)

lemma rmatch_dot_plus:
  "x \<noteq> 10 \<Longrightarrow> rmatch [(Plus AnyChar, True)] b (x # t)
     = Some (x # takeWhile (\<lambda>c. c \<noteq> 10) t, dropWhile (\<lambda>c. c \<noteq> 10) t)"
  by (induction t arbitrary: x b) (simp_all add: capture_def)

lemma re_sub_from_bol: "re_sub_from ((Bol, g) # p) r False s = s"
  by (induction s) (simp_all del: re_sub_from.simps add: re_sub_from.simps[of _ _ False])

lemma length_dropWhile_less: "length (dropWhile P t) < Suc (Suc (length t))"
  using length_dropWhile_le[of P t] by simp

lemma re_sub_bom_removed:
  "x \<noteq> 10 \<Longrightarrow> re_sub rx_bom Group1 (65279 # x # t) = x # t"
  by (simp add: re_sub_def rx_bom_def rmatch_dot_plus re_sub_from_bol capture_def
      length_dropWhile_less re_sub_from.simps[of _ _ True] del: re_sub_from.simps rmatch.simps(7))

lemma re_sub_bom_absent:
  "s = [] \<or> hd s \<noteq> 65279 \<Longrightarrow> re_sub rx_bom Group1 s = s"
  by (cases s) (auto simp: re_sub_def rx_bom_def re_sub_from_bol
      re_sub_from.simps[of _ _ True] simp del: re_sub_from.simps)

lemma format_correction_first:
  "r \<noteq> [] \<Longrightarrow> format_correction (r # rs)
     = Inr ((re_sub rx_bom Group1 (hd r) # tl r) # map (padded (length r)) rs)"
  by (cases r) (simp_all add: format_correction_def format_rows_rest)

lemma length_first_row:
  "r \<noteq> [] \<Longrightarrow> length (c # tl r) = length r"
  by (cases r) simp_all

lemma re_sub_bom_alone:
  "re_sub rx_bom Group1 [65279] = [65279]"
  "re_sub rx_bom Group1 (65279 # 10 # t) = 65279 # 10 # t"
  by (simp_all add: re_sub_def rx_bom_def re_sub_from_bol
      re_sub_from.simps[of _ _ True] del: re_sub_from.simps)

text \<open>
  What the repair does when the first row has at least one cell: the column count is the
  length of the first row; only the first cell of the first row goes through the
  substitution; a later row that is shorter is padded on the right with empty strings, a
  row that is as long or longer is written as it is; no row is dropped, and every row
  written is at least as long as the first row.
\<close>

lemma format_correction_rows:
  assumes "r \<noteq> []"
  shows "\<exists>out. format_correction (r # rs) = Inr out \<and> length out = length (r # rs)
      \<and> tl (hd out) = tl r
      \<and> tl out = map (\<lambda>row. row @ replicate (length r - length row) []) rs
      \<and> (\<forall>row \<in> set out. length r \<le> length row)"
proof -
  let ?out = "(re_sub rx_bom Group1 (hd r) # tl r) # map (padded (length r)) rs"
  have "format_correction (r # rs) = Inr ?out"
    using assms by (rule format_correction_first)
  moreover have "length ?out = length (r # rs)" by simp
  moreover have "tl (hd ?out) = tl r" by simp
  moreover have "tl ?out = map (\<lambda>row. row @ replicate (length r - length row) []) rs"
    by (simp add: padded_def)
  moreover have "\<forall>row \<in> set ?out. length r \<le> length row"
    using length_first_row[OF assms] by (auto simp: padded_def)
  ultimately show ?thesis by blast
qed

lemma format_correction_example:
  "format_correction [[65279 # str ''a'', str ''b''], [str ''c''],
       [str ''d'', str ''e'', str ''f'']]
   = Inr [[str ''a'', str ''b''], [str ''c'', []], [str ''d'', str ''e'', str ''f'']]"
proof -
  have "re_sub rx_bom Group1 (65279 # str ''a'') = str ''a''"
    using re_sub_bom_removed[of 97 "[]"] by (simp add: str_def)
  then show ?thesis
    by (simp add: format_correction_first padded_def)
qed

text \<open>
  Claim C3. The repair is to handle every CSV input: it fixes the column count by the
  first row, removes a byte-order mark from the first cell of that row when one is
  present, pads the shorter rows, cuts none and drops none. On two inputs the code does
  not. When the first cell holds the mark alone (a file that begins with the mark and
  whose first column has an empty name), the pattern asks for a character after the mark,
  and the mark stays in the first cell of the output. When the first line is blank, the
  first row has no cell and \<open>row[0]\<close> raises \<open>IndexError\<close> before any row is written.
\<close>

theorem format_correction_keeps_lone_mark:
  "format_correction [[[65279], str ''b''], [str ''c'']]
     = Inr [[[65279], str ''b''], [str ''c'', []]]
   \<and> format_correction [[], [str ''a'', str ''b'']] = Inl IndexError"
proof
  show "format_correction [[[65279], str ''b''], [str ''c'']]
     = Inr [[[65279], str ''b''], [str ''c'', []]]"
    by (simp add: format_correction_first re_sub_bom_alone padded_def)
  show "format_correction [[], [str ''a'', str ''b'']] = Inl IndexError"
    by (simp add: format_correction_def)
qed

section \<open>Row emission\<close>

lemma isRowEmpty_iff: "isRowEmpty row \<longleftrightarrow> (\<forall>c \<in> set row. c = [])"
  by (induction row) auto

lemma csv_records_written:
  "snd (csv_records E tags reader out)
     = out @ filter (\<lambda>row. \<not> isRowEmpty row) (resolved (map (csv_row E tags) reader))"
  by (induction reader arbitrary: out) (auto split: sum.splits)

lemma xml_records_written:
  "snd (xml_records E tags iter out)
     = out @ filter (\<lambda>row. \<not> isRowEmpty row) (resolved (map (xml_row E tags) iter))"
  by (induction iter arbitrary: out) (auto split: sum.splits)

lemma csv_records_complete:
  "fst (csv_records E tags reader out) = None \<Longrightarrow>
   map (csv_row E tags) reader = map Inr (resolved (map (csv_row E tags) reader))"
  by (induction reader arbitrary: out) (auto split: sum.splits)

lemma xml_records_complete:
  "fst (xml_records E tags iter out) = None \<Longrightarrow>
   map (xml_row E tags) iter = map Inr (resolved (map (xml_row E tags) iter))"
  by (induction iter arbitrary: out) (auto split: sum.splits)

lemma temp_path_differs: "dp @ str ''-temp'' \<noteq> dp"
  by (simp add: str_def)

lemma csv_transform_complete:
  assumes "fst (csv_records E tags (DictReader content) [generateFirstRow tags]) = None"
  shows "fst (csv_transform E tags dp content w) = Returned"
    and "csv_files (snd (csv_transform E tags dp content w)) dp
         = Some (generateFirstRow tags # filter (\<lambda>row. \<not> isRowEmpty row)
                   (resolved (map (csv_row E tags) (DictReader content))))"
    and "csv_files (snd (csv_transform E tags dp content w)) (dp @ str ''-temp'') = None"
  using assms temp_path_differs[of dp]
  by (simp_all add: csv_transform_def csv_finish_def rename_def write_csv_def Let_def
      csv_records_written)

lemma xml_transform_written:
  "csv_files (snd (xml_transform E tags dp iter w)) dp
     = Some (generateFirstRow tags # filter (\<lambda>row. \<not> isRowEmpty row)
               (resolved (map (xml_row E tags) iter)))"
  by (simp add: xml_transform_def write_csv_def Let_def xml_records_written)

lemma xml_transform_outcome:
  "fst (xml_transform E tags dp iter w)
     = (case fst (xml_records E tags iter [generateFirstRow tags]) of
          None \<Rightarrow> Returned | Some e \<Rightarrow> Raised e)"
  by (simp add: xml_transform_def Let_def)

text \<open>
  Claim C9. In both transformers the rows written after the header are, in the order of
  the source records, the resolved rows that are not made of empty strings only: a record
  whose row is entirely empty strings is dropped and every other record gives one row, so
  the output rows are a subsequence of the resolved rows. The loop stops at a record that
  raises; when none does, every record has been resolved and the file holds the header
  and these rows.
\<close>

theorem rows_written_in_order:
  "snd (csv_records E tags reader out)
     = out @ filter (\<lambda>row. \<not> isRowEmpty row) (resolved (map (csv_row E tags) reader))
   \<and> snd (xml_records E tags iter out)
     = out @ filter (\<lambda>row. \<not> isRowEmpty row) (resolved (map (xml_row E tags) iter))
   \<and> (isRowEmpty row \<longleftrightarrow> (\<forall>c \<in> set row. c = []))
   \<and> subseq (filter (\<lambda>row. \<not> isRowEmpty row) (resolved (map (csv_row E tags) reader)))
        (resolved (map (csv_row E tags) reader))
   \<and> subseq (filter (\<lambda>row. \<not> isRowEmpty row) (resolved (map (xml_row E tags) iter)))
        (resolved (map (xml_row E tags) iter))
   \<and> (fst (csv_records E tags reader out) = None \<longrightarrow>
        map (csv_row E tags) reader = map Inr (resolved (map (csv_row E tags) reader)))
   \<and> (fst (xml_records E tags iter out) = None \<longrightarrow>
        map (xml_row E tags) iter = map Inr (resolved (map (xml_row E tags) iter)))
   \<and> (fst (csv_records E tags (DictReader content) [generateFirstRow tags]) = None \<longrightarrow>
        fst (csv_transform E tags dp content w) = Returned
        \<and> csv_files (snd (csv_transform E tags dp content w)) dp
            = Some (generateFirstRow tags # filter (\<lambda>row. \<not> isRowEmpty row)
                      (resolved (map (csv_row E tags) (DictReader content)))))
   \<and> (fst (xml_records E tags iter [generateFirstRow tags]) = None \<longrightarrow>
        fst (xml_transform E tags dp iter w) = Returned
        \<and> csv_files (snd (xml_transform E tags dp iter w)) dp
            = Some (generateFirstRow tags # filter (\<lambda>row. \<not> isRowEmpty row)
                      (resolved (map (xml_row E tags) iter))))"
proof (intro conjI impI)
  show "snd (csv_records E tags reader out)
     = out @ filter (\<lambda>row. \<not> isRowEmpty row) (resolved (map (csv_row E tags) reader))"
    by (rule csv_records_written)
  show "snd (xml_records E tags iter out)
     = out @ filter (\<lambda>row. \<not> isRowEmpty row) (resolved (map (xml_row E tags) iter))"
    by (rule xml_records_written)
  show "isRowEmpty row \<longleftrightarrow> (\<forall>c \<in> set row. c = [])"
    by (rule isRowEmpty_iff)
  show "subseq (filter (\<lambda>row. \<not> isRowEmpty row) (resolved (map (csv_row E tags) reader)))
        (resolved (map (csv_row E tags) reader))"
    by simp
  show "subseq (filter (\<lambda>row. \<not> isRowEmpty row) (resolved (map (xml_row E tags) iter)))
        (resolved (map (xml_row E tags) iter))"
    by simp
next
  assume "fst (csv_records E tags reader out) = None"
  then show "map (csv_row E tags) reader = map Inr (resolved (map (csv_row E tags) reader))"
    by (rule csv_records_complete)
next
  assume "fst (xml_records E tags iter out) = None"
  then show "map (xml_row E tags) iter = map Inr (resolved (map (xml_row E tags) iter))"
    by (rule xml_records_complete)
next
  assume a: "fst (csv_records E tags (DictReader content) [generateFirstRow tags]) = None"
  show "fst (csv_transform E tags dp content w) = Returned"
    using a by (rule csv_transform_complete(1))
  show "csv_files (snd (csv_transform E tags dp content w)) dp
      = Some (generateFirstRow tags # filter (\<lambda>row. \<not> isRowEmpty row)
                (resolved (map (csv_row E tags) (DictReader content))))"
    using a by (rule csv_transform_complete(2))
next
  assume a: "fst (xml_records E tags iter [generateFirstRow tags]) = None"
  show "fst (xml_transform E tags dp iter w) = Returned"
    using a by (simp add: xml_transform_outcome)
  show "csv_files (snd (xml_transform E tags dp iter w)) dp
      = Some (generateFirstRow tags # filter (\<lambda>row. \<not> isRowEmpty row)
                (resolved (map (xml_row E tags) iter)))"
    by (rule xml_transform_written)
qed

lemmas field_defs =
  csv_row_def csv_field_def dict_row_def entity_text_def is_list_def FORCE_LABEL_def
  xml_row_def xml_field_def element_text_def xml_empty_element_handler_def

lemma csv_records_example:
  "csv_records example_env [(str ''bus_name'', JStr (str ''Name''))]
      (DictReader [[str ''Name''], [str ''Acme''], [[]], [str ''Bolt'']]) [[str ''bus_name'']]
   = (None, [[str ''bus_name''], [str ''acme''], [str ''bolt'']])"
  by (simp add: field_defs scrub_defs example_env_def str_def)

theorem rows_written_in_order_witness:
  "fst (csv_records example_env [(str ''bus_name'', JStr (str ''Name''))]
      (DictReader [[str ''Name''], [str ''Acme''], [[]], [str ''Bolt'']])
      [generateFirstRow [(str ''bus_name'', JStr (str ''Name''))]]) = None
   \<and> csv_files (snd (csv_transform example_env [(str ''bus_name'', JStr (str ''Name''))]
        (str ''d.csv'') [[str ''Name''], [str ''Acme''], [[]], [str ''Bolt'']] example_world))
        (str ''d.csv'')
     = Some [[str ''bus_name''], [str ''acme''], [str ''bolt'']]"
proof -
  let ?tags = "[(str ''bus_name'', JStr (str ''Name''))]"
  let ?content = "[[str ''Name''], [str ''Acme''], [[]], [str ''Bolt'']]"
  have g: "generateFirstRow ?tags = [str ''bus_name'']"
    by (simp add: generateFirstRow_def)
  have h: "fst (csv_records example_env ?tags (DictReader ?content) [generateFirstRow ?tags])
      = None"
    using csv_records_example by (simp add: g)
  have w: "snd (csv_records example_env ?tags (DictReader ?content) [generateFirstRow ?tags])
      = [generateFirstRow ?tags] @ filter (\<lambda>row. \<not> isRowEmpty row)
          (resolved (map (csv_row example_env ?tags) (DictReader ?content)))"
    using rows_written_in_order[of example_env ?tags "DictReader ?content"
        "[generateFirstRow ?tags]"]
    by blast
  have f: "csv_files (snd (csv_transform example_env ?tags (str ''d.csv'') ?content
          example_world)) (str ''d.csv'')
      = Some (generateFirstRow ?tags # filter (\<lambda>row. \<not> isRowEmpty row)
          (resolved (map (csv_row example_env ?tags) (DictReader ?content))))"
    using rows_written_in_order[of example_env ?tags _ _ _ _ ?content "str ''d.csv''"
        example_world] h
    by blast
  have "snd (csv_records example_env ?tags (DictReader ?content) [generateFirstRow ?tags])
      = [[str ''bus_name''], [str ''acme''], [str ''bolt'']]"
    using csv_records_example by (simp add: g)
  then show ?thesis using h w f by simp
qed

section \<open>The transformers on the example sources\<close>

lemma str_append [simp]: "str a @ str b = str (a @ b)"
  by (simp add: str_def)

lemmas validator_defs =
  Source_parse_def Source_init_def required_tags_def check_format_def check_address_def
  check_force_def present_not_def has_key_def FORCE_LABEL_def in_dict_def set_paths_def
  example_source_def strip_ext_def is_str_def

lemmas label_defs =
  CSV_extract_labels_def XML_extract_labels_def example_source_def FIELD_LABEL_def
  csv_locator_def xml_locator_def xpath_def info_of_def has_key_def in_dict_def
  ADDR_FIELD_LABEL_def dict_set_def

lemmas parse_defs =
  CSV_parse_def XML_parse_def char_encode_check_def example_source_def example_world_def
  has_key_def ENCODING_LIST_def csv_transform_def csv_finish_def xml_transform_def
  rename_def write_csv_def generateFirstRow_def

subsection \<open>A forced value\<close>

lemma parse_md_force:
  "Source_parse (Source_init md_force) = Inr (example_source md_force None)"
  by (simp add: validator_defs md_force_def str_def)

lemma parse_md_force_xml:
  "Source_parse (Source_init md_force_xml) = Inr (example_source md_force_xml None)"
  by (simp add: validator_defs md_force_xml_def str_def)

lemma labels_md_force:
  "CSV_extract_labels (example_source md_force None)
   = example_source md_force
       (Some [(str ''bus_name'', JStr (str ''Name'')),
              (str ''country'', JStr (str ''DPIFORCE''))])"
  by (simp add: label_defs md_force_def)

lemma labels_md_force_xml:
  "XML_extract_labels (example_source md_force_xml None)
   = Inr (example_source md_force_xml
       (Some [(str ''bus_name'', JStr (str ''.//Name'')),
              (str ''country'', JStr (str ''DPIFORCE''))]))"
  by (simp add: label_defs md_force_xml_def)

lemma csv_parse_md_force:
  "fst (CSV_parse example_env
      (example_source md_force
         (Some [(str ''bus_name'', JStr (str ''Name'')),
                (str ''country'', JStr (str ''DPIFORCE''))]))
      example_world) = Raised NameError"
  by (simp add: parse_defs field_defs scrub_defs md_force_def example_env_def str_def)

lemma xml_parse_md_force:
  "fst (XML_parse example_env
      (example_source md_force_xml
         (Some [(str ''bus_name'', JStr (str ''.//Name'')),
                (str ''country'', JStr (str ''DPIFORCE''))]))
      example_world) = Raised NameError"
  by (simp add: parse_defs field_defs scrub_defs md_force_xml_def example_env_def str_def)

lemma xml_parse_md_force_file:
  "csv_files (snd (XML_parse example_env
      (example_source md_force_xml
         (Some [(str ''bus_name'', JStr (str ''.//Name'')),
                (str ''country'', JStr (str ''DPIFORCE''))]))
      example_world)) (str ''./pddir/dirty/a-dirty.csv'')
   = Some [[str ''bus_name'', str ''country'']]"
  by (simp add: parse_defs field_defs scrub_defs md_force_xml_def example_env_def str_def)

text \<open>The forced branch raises for each name that can be forced, whatever the record.\<close>

lemma forced_field_raises:
  "key \<in> set FORCE_LABEL \<Longrightarrow>
   csv_field E entity key (JStr (str ''DPIFORCE'')) row = Inl NameError
   \<and> xml_field E element key (JStr (str ''DPIFORCE'')) row = Inl NameError"
  by (auto simp: csv_field_def xml_field_def is_list_def FORCE_LABEL_def)

text \<open>
  Claim C6. With \<open>force = {"country": "canada"}\<close> and no \<open>country\<close> in \<open>info\<close> every
  output row is to hold \<open>canada\<close> in the country column. The validator accepts the
  document and the label map marks \<open>country\<close> as forced, but the forced branch of both
  transformers reads the value from \<open>json_data\<close>, a name that the module never defines: on
  the first record the CSV and the XML transformer raise \<open>NameError\<close>, and no row with
  \<open>canada\<close> is written.
\<close>

theorem forced_country_raises:
  "Source_parse (Source_init md_force) = Inr (example_source md_force None)
   \<and> CSV_extract_labels (example_source md_force None)
     = example_source md_force
         (Some [(str ''bus_name'', JStr (str ''Name'')),
                (str ''country'', JStr (str ''DPIFORCE''))])
   \<and> fst (CSV_parse example_env
        (example_source md_force
           (Some [(str ''bus_name'', JStr (str ''Name'')),
                  (str ''country'', JStr (str ''DPIFORCE''))]))
        example_world) = Raised NameError
   \<and> Source_parse (Source_init md_force_xml) = Inr (example_source md_force_xml None)
   \<and> XML_extract_labels (example_source md_force_xml None)
     = Inr (example_source md_force_xml
         (Some [(str ''bus_name'', JStr (str ''.//Name'')),
                (str ''country'', JStr (str ''DPIFORCE''))]))
   \<and> fst (XML_parse example_env
        (example_source md_force_xml
           (Some [(str ''bus_name'', JStr (str ''.//Name'')),
                  (str ''country'', JStr (str ''DPIFORCE''))]))
        example_world) = Raised NameError
   \<and> csv_field E entity (str ''country'') (JStr (str ''DPIFORCE'')) row = Inl NameError
   \<and> xml_field E element (str ''country'') (JStr (str ''DPIFORCE'')) row = Inl NameError"
  using parse_md_force labels_md_force csv_parse_md_force parse_md_force_xml
    labels_md_force_xml xml_parse_md_force
    forced_field_raises[of "str ''country''" E entity row element]
  by (simp add: FORCE_LABEL_def)

subsection \<open>A column that the file does not have\<close>

lemma parse_md_missing:
  "Source_parse (Source_init md_missing) = Inr (example_source md_missing None)"
  by (simp add: validator_defs md_missing_def str_def)

lemma labels_md_missing:
  "CSV_extract_labels (example_source md_missing None)
   = example_source md_missing
       (Some [(str ''bus_name'', JStr (str ''Name'')), (str ''phone'', JStr (str ''Tel''))])"
  by (simp add: label_defs md_missing_def)

lemma csv_parse_md_missing:
  "fst (CSV_parse example_env
      (example_source md_missing
         (Some [(str ''bus_name'', JStr (str ''Name'')), (str ''phone'', JStr (str ''Tel''))]))
      example_world) = Returned"
  "csv_files (snd (CSV_parse example_env
      (example_source md_missing
         (Some [(str ''bus_name'', JStr (str ''Name'')), (str ''phone'', JStr (str ''Tel''))]))
      example_world)) (str ''./pddir/dirty/a-dirty.csv'')
   = Some [[str ''bus_name'', str ''phone'']]"
  "stdout (snd (CSV_parse example_env
      (example_source md_missing
         (Some [(str ''bus_name'', JStr (str ''Name'')), (str ''phone'', JStr (str ''Tel''))]))
      example_world)) = [JStr (str ''Tel'')]"
  by (simp_all add: parse_defs field_defs scrub_defs md_missing_def example_env_def str_def)

text \<open>
  The half of claim C5 that holds: in an XML record a locator whose element is missing
  or has no text never raises and resolves to the empty string.
\<close>

lemma xml_missing_element_empty:
  "element_text element (JStr p) = Inr (xml_empty_element_handler (element p))"
  "xml_empty_element_handler None = []"
  "xml_empty_element_handler (Some None) = []"
  "xml_empty_element_handler (Some (Some t)) = t"
  by (simp_all add: element_text_def xml_empty_element_handler_def)

text \<open>The \<open>KeyError\<close> of a CSV record that lacks the column of a locator.\<close>

lemma csv_missing_column_raises:
  "cols entity s = None \<Longrightarrow> entity_text entity (JStr s) = Inl KeyError"
  by (simp add: entity_text_def)

text \<open>
  Claim C5. A CSV record without a declared column is to abort the whole transform, so
  that no standardized output file is produced. The code catches the \<open>KeyError\<close>, prints
  the locator and stops reading records, but then goes on to the rename after the loop:
  \<open>parse\<close> returns normally and the intermediate file is replaced by the rows written so
  far, here the header alone.
\<close>

theorem missing_column_leaves_output:
  "Source_parse (Source_init md_missing) = Inr (example_source md_missing None)
   \<and> CSV_extract_labels (example_source md_missing None)
     = example_source md_missing
         (Some [(str ''bus_name'', JStr (str ''Name'')), (str ''phone'', JStr (str ''Tel''))])
   \<and> fst (CSV_parse example_env
        (example_source md_missing
           (Some [(str ''bus_name'', JStr (str ''Name'')), (str ''phone'', JStr (str ''Tel''))]))
        example_world) = Returned
   \<and> csv_files (snd (CSV_parse example_env
        (example_source md_missing
           (Some [(str ''bus_name'', JStr (str ''Name'')), (str ''phone'', JStr (str ''Tel''))]))
        example_world)) (str ''./pddir/dirty/a-dirty.csv'')
     = Some [[str ''bus_name'', str ''phone'']]
   \<and> stdout (snd (CSV_parse example_env
        (example_source md_missing
           (Some [(str ''bus_name'', JStr (str ''Name'')), (str ''phone'', JStr (str ''Tel''))]))
        example_world)) = [JStr (str ''Tel'')]"
  using parse_md_missing labels_md_missing csv_parse_md_missing
  by simp

section \<open>Where the transformers write\<close>

lemma csv_transform_raised:
  assumes "fst (csv_transform E tags dp content w) = Raised e"
  shows "csv_files (snd (csv_transform E tags dp content w)) dp = csv_files w dp"
    and "csv_files (snd (csv_transform E tags dp content w)) (dp @ str ''-temp'')
         = Some (snd (csv_records E tags (DictReader content) [generateFirstRow tags]))"
  using assms temp_path_differs[of dp]
  by (auto simp: csv_transform_def csv_finish_def write_csv_def Let_def
      split: option.splits if_splits prod.splits)

lemma csv_transform_frame:
  "p \<noteq> dp \<Longrightarrow> p \<noteq> dp @ str ''-temp'' \<Longrightarrow>
   csv_files (snd (csv_transform E tags dp content w)) p = csv_files w p"
  by (auto simp: csv_transform_def csv_finish_def write_csv_def rename_def Let_def
      split: option.splits if_splits prod.splits)

lemma CSV_parse_raised:
  assumes "fst (CSV_parse E source w) = Raised e" and "dirtypath source = Some dp"
  shows "csv_files (snd (CSV_parse E source w)) dp = csv_files w dp"
proof (cases "\<exists>tags content. CSV_parse E source w = csv_transform E tags dp content w")
  case True
  then show ?thesis using assms(1) csv_transform_raised(1) by metis
next
  case False
  then show ?thesis
    using assms(2) temp_path_differs[of dp]
    by (auto simp: CSV_parse_def write_csv_def split: option.splits sum.splits)
qed

lemma xml_transform_frame:
  "p \<noteq> dp \<Longrightarrow> csv_files (snd (xml_transform E tags dp iter w)) p = csv_files w p"
  by (simp add: xml_transform_def write_csv_def Let_def)

lemma xml_transform_file:
  "csv_files (snd (xml_transform E tags dp iter w)) dp
     = Some (snd (xml_records E tags iter [generateFirstRow tags]))"
  by (simp add: xml_transform_def write_csv_def Let_def)

lemma XML_parse_frame:
  "dirtypath source = Some dp \<Longrightarrow> p \<noteq> dp \<Longrightarrow>
   csv_files (snd (XML_parse E source w)) p = csv_files w p"
  by (auto simp: XML_parse_def write_csv_def xml_transform_frame split: option.splits sum.splits)

text \<open>
  Claim C7, as stated, fails for the XML transformer, which has no temporary file: it
  opens the canonical intermediate path for writing and writes the header and the rows
  there. When it fails on the first record of the example source, the intermediate file
  that existed before has been replaced by a file that holds the header only.
\<close>

theorem xml_parse_leaves_partial_file:
  "csv_files example_world (str ''./pddir/dirty/a-dirty.csv'')
     = Some [[str ''Name''], [str ''Acme'']]
   \<and> fst (XML_parse example_env
        (example_source md_force_xml
           (Some [(str ''bus_name'', JStr (str ''.//Name'')),
                  (str ''country'', JStr (str ''DPIFORCE''))]))
        example_world) = Raised NameError
   \<and> csv_files (snd (XML_parse example_env
        (example_source md_force_xml
           (Some [(str ''bus_name'', JStr (str ''.//Name'')),
                  (str ''country'', JStr (str ''DPIFORCE''))]))
        example_world)) (str ''./pddir/dirty/a-dirty.csv'')
     = Some [[str ''bus_name'', str ''country'']]"
  using xml_parse_md_force xml_parse_md_force_file
  by (simp add: example_world_def)

text \<open>
  Claim C7, amended. The CSV transformer writes the header and the rows to the sibling
  path with the suffix \<open>-temp\<close>. When no record raises, it returns after renaming that
  file over the canonical intermediate path, which then holds the complete output while
  the temporary path is gone. When an exception leaves the transformer, the canonical
  intermediate file is as it was before and the rows written so far stay in the temporary
  file. The XML transformer has no temporary file: whether it returns or raises, the
  canonical intermediate path holds the header and the rows written so far, and no other
  CSV file is touched.
\<close>

theorem transform_file_discipline:
  "(fst (csv_records E tags (DictReader content) [generateFirstRow tags]) = None \<longrightarrow>
      fst (csv_transform E tags dp content w) = Returned
      \<and> csv_files (snd (csv_transform E tags dp content w)) dp
          = Some (generateFirstRow tags # filter (\<lambda>row. \<not> isRowEmpty row)
                    (resolved (map (csv_row E tags) (DictReader content))))
      \<and> csv_files (snd (csv_transform E tags dp content w)) (dp @ str ''-temp'') = None)
   \<and> (\<forall>e. fst (csv_transform E tags dp content w) = Raised e \<longrightarrow>
        csv_files (snd (csv_transform E tags dp content w)) dp = csv_files w dp
        \<and> csv_files (snd (csv_transform E tags dp content w)) (dp @ str ''-temp'')
            = Some (snd (csv_records E tags (DictReader content) [generateFirstRow tags])))
   \<and> (\<forall>p. p \<noteq> dp \<and> p \<noteq> dp @ str ''-temp'' \<longrightarrow>
        csv_files (snd (csv_transform E tags dp content w)) p = csv_files w p)
   \<and> (\<forall>e. fst (CSV_parse E source w) = Raised e \<and> dirtypath source = Some dp \<longrightarrow>
        csv_files (snd (CSV_parse E source w)) dp = csv_files w dp)
   \<and> csv_files (snd (xml_transform E tags dp iter w)) dp
       = Some (snd (xml_records E tags iter [generateFirstRow tags]))
   \<and> (\<forall>p. p \<noteq> dp \<longrightarrow> csv_files (snd (xml_transform E tags dp iter w)) p = csv_files w p)
   \<and> (\<forall>p. dirtypath source = Some dp \<and> p \<noteq> dp \<longrightarrow>
        csv_files (snd (XML_parse E source w)) p = csv_files w p)"
proof (intro conjI impI allI)
  assume a: "fst (csv_records E tags (DictReader content) [generateFirstRow tags]) = None"
  show "fst (csv_transform E tags dp content w) = Returned"
    using a by (rule csv_transform_complete(1))
  show "csv_files (snd (csv_transform E tags dp content w)) dp
      = Some (generateFirstRow tags # filter (\<lambda>row. \<not> isRowEmpty row)
                (resolved (map (csv_row E tags) (DictReader content))))"
    using a by (rule csv_transform_complete(2))
  show "csv_files (snd (csv_transform E tags dp content w)) (dp @ str ''-temp'') = None"
    using a by (rule csv_transform_complete(3))
next
  fix e assume a: "fst (csv_transform E tags dp content w) = Raised e"
  show "csv_files (snd (csv_transform E tags dp content w)) dp = csv_files w dp"
    using a by (rule csv_transform_raised(1))
  show "csv_files (snd (csv_transform E tags dp content w)) (dp @ str ''-temp'')
      = Some (snd (csv_records E tags (DictReader content) [generateFirstRow tags]))"
    using a by (rule csv_transform_raised(2))
next
  fix p assume "p \<noteq> dp \<and> p \<noteq> dp @ str ''-temp''"
  then show "csv_files (snd (csv_transform E tags dp content w)) p = csv_files w p"
    by (simp add: csv_transform_frame)
next
  fix e assume "fst (CSV_parse E source w) = Raised e \<and> dirtypath source = Some dp"
  then show "csv_files (snd (CSV_parse E source w)) dp = csv_files w dp"
    using CSV_parse_raised by blast
next
  show "csv_files (snd (xml_transform E tags dp iter w)) dp
      = Some (snd (xml_records E tags iter [generateFirstRow tags]))"
    by (rule xml_transform_file)
next
  fix p assume "p \<noteq> dp"
  then show "csv_files (snd (xml_transform E tags dp iter w)) p = csv_files w p"
    by (rule xml_transform_frame)
next
  fix p assume "dirtypath source = Some dp \<and> p \<noteq> dp"
  then show "csv_files (snd (XML_parse E source w)) p = csv_files w p"
    by (simp add: XML_parse_frame)
qed

theorem transform_file_discipline_witness:
  "fst (CSV_parse example_env
      (example_source md_force
         (Some [(str ''bus_name'', JStr (str ''Name'')),
                (str ''country'', JStr (str ''DPIFORCE''))]))
      example_world) = Raised NameError
   \<and> dirtypath (example_source md_force
         (Some [(str ''bus_name'', JStr (str ''Name'')),
                (str ''country'', JStr (str ''DPIFORCE''))]))
     = Some (str ''./pddir/dirty/a-dirty.csv'')
   \<and> csv_files (snd (CSV_parse example_env
        (example_source md_force
           (Some [(str ''bus_name'', JStr (str ''Name'')),
                  (str ''country'', JStr (str ''DPIFORCE''))]))
        example_world)) (str ''./pddir/dirty/a-dirty.csv'')
     = Some [[str ''Name''], [str ''Acme'']]"
proof -
  let ?s = "example_source md_force
         (Some [(str ''bus_name'', JStr (str ''Name'')),
                (str ''country'', JStr (str ''DPIFORCE''))])"
  have r: "fst (CSV_parse example_env ?s example_world) = Raised NameError"
    by (rule csv_parse_md_force)
  have d: "dirtypath ?s = Some (str ''./pddir/dirty/a-dirty.csv'')"
    by (simp add: example_source_def)
  have "csv_files (snd (CSV_parse example_env ?s example_world))
          (str ''./pddir/dirty/a-dirty.csv'')
        = csv_files example_world (str ''./pddir/dirty/a-dirty.csv'')"
    using transform_file_discipline[of example_env _ _ "str ''./pddir/dirty/a-dirty.csv''"
        example_world ?s] r d
    by blast
  then show ?thesis using r d by (simp add: example_world_def)
qed

section \<open>The address columns of a source without an address\<close>

lemma dict_set_keys: "fst ` set (dict_set d k v) = insert k (fst ` set d)"
proof (cases "has_key d k")
  case True
  have "map fst (map (\<lambda>(k', v'). if k' = k then (k', v) else (k', v')) d) = map fst d"
    by (induction d) auto
  then have "set (map fst (dict_set d k v)) = set (map fst d)"
    using True by (simp add: dict_set_def)
  then show ?thesis using True by (auto simp: has_key_def)
next
  case False
  then show ?thesis by (simp add: dict_set_def)
qed

lemma csv_labels_keys:
  "fst ` set (csv_labels md ls lm)
     = fst ` set lm \<union> {i \<in> set ls. csv_locator md i \<noteq> None}"
  by (induction ls arbitrary: lm) (auto simp: dict_set_keys split: option.splits)

lemma xml_labels_keys:
  "xml_labels md ls lm = Inr lm' \<Longrightarrow>
   fst ` set lm' = fst ` set lm \<union> {i \<in> set ls. xml_locator md i \<noteq> Inr None}"
proof (induction ls arbitrary: lm)
  case Nil
  then show ?case by simp
next
  case (Cons i ls)
  show ?case
  proof (cases "xml_locator md i")
    case (Inl e)
    then show ?thesis using Cons.prems by simp
  next
    case (Inr v)
    show ?thesis
    proof (cases v)
      case None
      then show ?thesis using Inr Cons by auto
    next
      case (Some x)
      then have "xml_labels md ls (dict_set lm i x) = Inr lm'"
        using Inr Cons.prems by simp
      from Cons.IH[OF this] show ?thesis
        using Inr Some by (auto simp: dict_set_keys)
    qed
  qed
qed

lemma generateFirstRow_plain:
  "str ''full_addr'' \<notin> fst ` set tags \<Longrightarrow> generateFirstRow tags = map fst tags"
  by (simp add: generateFirstRow_def)

lemma forced_is_force_label:
  "rule_force md \<Longrightarrow> in_dict (map_of md (str ''force'')) k \<Longrightarrow> k \<in> set FORCE_LABEL"
  by (auto simp: rule_force_def in_dict_def has_key_def split: option.splits json.splits)

lemma in_dict_has_key: "in_dict (map_of md k) c \<Longrightarrow> has_key md k"
  by (auto simp: in_dict_def has_key_map_of split: option.splits)

lemma full_addr_not_address: "str ''full_addr'' \<notin> set ADDR_FIELD_LABEL"
  by (simp add: ADDR_FIELD_LABEL_def)

lemma address_labels_are_fields: "c \<in> set ADDR_FIELD_LABEL \<Longrightarrow> c \<in> set FIELD_LABEL"
  by (auto simp: ADDR_FIELD_LABEL_def FIELD_LABEL_def)

lemma full_addr_is_field: "str ''full_addr'' \<in> set FIELD_LABEL"
  by (simp add: FIELD_LABEL_def)

lemma csv_locator_full_addr:
  assumes "rule_force md" "\<not> has_key (info_of md) (str ''full_addr'')"
    "\<not> has_key (info_of md) (str ''address'')"
  shows "csv_locator md (str ''full_addr'') = None"
  using assms forced_is_force_label[of md "str ''full_addr''"] full_addr_not_forced
  by (auto simp: csv_locator_def)

lemma csv_locator_address:
  assumes "\<not> has_key (info_of md) (str ''address'')" "c \<in> set ADDR_FIELD_LABEL"
  shows "csv_locator md c \<noteq> None \<longleftrightarrow> in_dict (map_of md (str ''force'')) c"
  using assms in_dict_has_key[of md "str ''force''" c]
  by (auto simp: csv_locator_def)

lemma xml_locator_full_addr:
  assumes "rule_force md" "\<not> has_key (info_of md) (str ''full_addr'')"
    "\<not> has_key (info_of md) (str ''address'')"
  shows "xml_locator md (str ''full_addr'') = Inr None"
  using assms forced_is_force_label[of md "str ''full_addr''"] full_addr_not_forced
  by (auto simp: xml_locator_def)

lemma xml_locator_address:
  assumes "\<not> has_key (info_of md) (str ''address'')" "c \<in> set ADDR_FIELD_LABEL"
  shows "xml_locator md c \<noteq> Inr None \<longleftrightarrow> in_dict (map_of md (str ''force'')) c"
  using assms in_dict_has_key[of md "str ''force''" c]
  by (auto simp: xml_locator_def)

lemma csv_field_one_cell:
  "key \<noteq> str ''full_addr'' \<Longrightarrow> csv_field E entity key loc row = Inr row' \<Longrightarrow>
   length row' = Suc (length row)"
  by (auto simp: csv_field_def split: if_splits sum.splits)

lemma xml_field_one_cell:
  "key \<noteq> str ''full_addr'' \<Longrightarrow> xml_field E element key loc row = Inr row' \<Longrightarrow>
   length row' = Suc (length row)"
  by (auto simp: xml_field_def split: if_splits sum.splits)

lemma csv_keys_length:
  "str ''full_addr'' \<notin> fst ` set tags \<Longrightarrow> csv_keys E entity tags row = Inr row' \<Longrightarrow>
   length row' = length row + length tags"
proof (induction tags arbitrary: row)
  case Nil
  then show ?case by simp
next
  case (Cons t tags)
  obtain key loc where t: "t = (key, loc)" by (cases t)
  from Cons.prems obtain r where r: "csv_field E entity key loc row = Inr r"
      and k: "csv_keys E entity tags r = Inr row'"
    by (auto simp: t split: sum.splits)
  have "length r = Suc (length row)"
    using csv_field_one_cell[OF _ r] Cons.prems(1) t by auto
  moreover have "length row' = length r + length tags"
    using Cons.IH[OF _ k] Cons.prems(1) by simp
  ultimately show ?case by simp
qed

lemma xml_keys_length:
  "str ''full_addr'' \<notin> fst ` set tags \<Longrightarrow> xml_keys E element tags row = Inr row' \<Longrightarrow>
   length row' = length row + length tags"
proof (induction tags arbitrary: row)
  case Nil
  then show ?case by simp
next
  case (Cons t tags)
  obtain key loc where t: "t = (key, loc)" by (cases t)
  from Cons.prems obtain r where r: "xml_field E element key loc row = Inr r"
      and k: "xml_keys E element tags r = Inr row'"
    by (auto simp: t split: sum.splits)
  have "length r = Suc (length row)"
    using xml_field_one_cell[OF _ r] Cons.prems(1) t by auto
  moreover have "length row' = length r + length tags"
    using Cons.IH[OF _ k] Cons.prems(1) by simp
  ultimately show ?case by simp
qed

lemma fold_upd_pairs_other:
  "c \<notin> fst ` set kvs \<Longrightarrow> fold (\<lambda>(k, v) d. d(k \<mapsto> Some v)) kvs d c = d c"
  by (induction kvs arbitrary: d) auto

lemma fold_upd_keys_other:
  "c \<notin> set ks \<Longrightarrow> fold (\<lambda>k d. d(k \<mapsto> None)) ks d c = d c"
  by (induction ks arbitrary: d) auto

lemma dict_row_cols_absent:
  assumes "c \<notin> set fieldnames"
  shows "cols (dict_row fieldnames row) c = None"
proof -
  have 1: "c \<notin> fst ` set (zip fieldnames row)"
    using assms by (auto dest: set_zip_leftD)
  have 2: "c \<notin> set (drop (length row) fieldnames)"
    using assms by (auto dest: in_set_dropD)
  show ?thesis
    using 1 2 by (simp add: dict_row_def Let_def fold_upd_pairs_other fold_upd_keys_other)
qed

lemma zip_map_self: "zip xs (map f xs) = map (\<lambda>x. (x, f x)) xs"
  by (induction xs) simp_all

lemma blank_fill_cells:
  assumes "row \<in> set (tl (blank_fill_rows (header # rows)))"
    and "(c, v) \<in> set (zip LABELS row)" and "c \<notin> set header"
  shows "v = []"
proof -
  obtain r where row: "row = blank_fill_row (dict_row header r)"
    using assms(1) by (auto simp: blank_fill_rows_def)
  have "zip LABELS row
      = map (\<lambda>col. (col, case cols (dict_row header r) col of None \<Rightarrow> []
                             | Some None \<Rightarrow> [] | Some (Some v) \<Rightarrow> v)) LABELS"
    unfolding row blank_fill_row_def by (rule zip_map_self)
  then show ?thesis
    using assms(2,3) by (auto simp: dict_row_cols_absent)
qed

lemma address_label_in_LABELS: "c \<in> set ADDR_FIELD_LABEL \<Longrightarrow> c \<in> set LABELS"
  using address_labels_are_fields[of c] full_addr_not_address
  by (auto simp: LABELS_def)

lemma parse_md_plain:
  "Source_parse (Source_init md_plain) = Inr (example_source md_plain None)"
  by (simp add: validator_defs md_plain_def str_def)

lemma schema_ok_md_plain: "schema_ok md_plain"
  by (simp add: md_plain_def schema_ok_def rule_required_def rule_format_def rule_header_def
      rule_url_def rule_exclusive_def rule_address_def rule_force_def present_not_def
      has_key_def info_of_def is_str_def is_dict_def)

lemma labels_md_plain:
  "CSV_extract_labels (example_source md_plain None)
   = example_source md_plain (Some [(str ''bus_name'', JStr (str ''Name''))])"
  by (simp add: label_defs md_plain_def)

lemma csv_parse_md_plain:
  "fst (CSV_parse example_env
      (example_source md_plain (Some [(str ''bus_name'', JStr (str ''Name''))]))
      example_world) = Returned"
  "csv_files (snd (CSV_parse example_env
      (example_source md_plain (Some [(str ''bus_name'', JStr (str ''Name''))]))
      example_world)) (str ''./pddir/dirty/a-dirty.csv'')
   = Some [[str ''bus_name''], [str ''acme'']]"
  by (simp_all add: parse_defs field_defs scrub_defs md_plain_def example_env_def str_def)

text \<open>
  Claim C8, as stated, fails: for a validated source with neither \<open>full_addr\<close> nor an
  \<open>address\<close> group the label map has no address field, the header that the transformer
  writes is the list of the label map's keys, and each row has one cell for each key. The
  output of the example has the single column \<open>bus_name\<close>; the seven address columns do
  not appear in it.
\<close>

theorem no_address_columns_in_output:
  "Source_parse (Source_init md_plain) = Inr (example_source md_plain None)
   \<and> CSV_extract_labels (example_source md_plain None)
     = example_source md_plain (Some [(str ''bus_name'', JStr (str ''Name''))])
   \<and> fst (CSV_parse example_env
        (example_source md_plain (Some [(str ''bus_name'', JStr (str ''Name''))]))
        example_world) = Returned
   \<and> csv_files (snd (CSV_parse example_env
        (example_source md_plain (Some [(str ''bus_name'', JStr (str ''Name''))]))
        example_world)) (str ''./pddir/dirty/a-dirty.csv'')
     = Some [[str ''bus_name''], [str ''acme'']]"
  using parse_md_plain labels_md_plain csv_parse_md_plain
  by simp

text \<open>
  Claim C8, amended. For every validated metadata document in which neither \<open>full_addr\<close>
  nor an \<open>address\<close> group is present in \<open>info\<close>, the header of the transformer (CSV and
  XML) is the list of the keys of the label map, every emitted row has exactly one cell for
  each of them, and a structured-address column is among them only when the \<open>force\<close>
  object of the metadata names it. The other address columns are not in the transformer's
  output; they are columns of the file that the blank-fill pass writes, where a column
  that its input lacks holds the empty string in every record.
\<close>

theorem address_columns_without_address:
  assumes "schema_ok md"
    and "\<not> has_key (info_of md) (str ''full_addr'')"
    and "\<not> has_key (info_of md) (str ''address'')"
    and "c \<in> set ADDR_FIELD_LABEL"
  shows "generateFirstRow (csv_labels md FIELD_LABEL []) = map fst (csv_labels md FIELD_LABEL [])
    \<and> (c \<in> set (generateFirstRow (csv_labels md FIELD_LABEL []))
         \<longleftrightarrow> in_dict (map_of md (str ''force'')) c)
    \<and> (\<forall>entity row. csv_row E (csv_labels md FIELD_LABEL []) entity = Inr row \<longrightarrow>
          length row = length (generateFirstRow (csv_labels md FIELD_LABEL [])))
    \<and> (\<forall>lm. xml_labels md FIELD_LABEL [] = Inr lm \<longrightarrow>
          generateFirstRow lm = map fst lm
          \<and> (c \<in> set (generateFirstRow lm) \<longleftrightarrow> in_dict (map_of md (str ''force'')) c)
          \<and> (\<forall>element row. xml_row E lm element = Inr row \<longrightarrow>
                length row = length (generateFirstRow lm)))
    \<and> c \<in> set LABELS
    \<and> hd (blank_fill_rows content) = LABELS
    \<and> (\<forall>header rows row v.
          content = header # rows \<and> c \<notin> set header
          \<and> row \<in> set (tl (blank_fill_rows content)) \<and> (c, v) \<in> set (zip LABELS row)
          \<longrightarrow> v = [])"
proof -
  have rf: "rule_force md" using assms(1) by (simp add: schema_ok_def)
  let ?lm = "csv_labels md FIELD_LABEL []"
  have nf: "str ''full_addr'' \<notin> fst ` set ?lm"
    using csv_locator_full_addr[OF rf assms(2,3)] by (simp add: csv_labels_keys)
  have g: "generateFirstRow ?lm = map fst ?lm"
    using nf by (rule generateFirstRow_plain)
  have k: "c \<in> set (generateFirstRow ?lm) \<longleftrightarrow> in_dict (map_of md (str ''force'')) c"
    using csv_locator_address[OF assms(3,4)] address_labels_are_fields[OF assms(4)]
    by (simp add: g csv_labels_keys)
  have l: "\<forall>entity row. csv_row E ?lm entity = Inr row \<longrightarrow>
      length row = length (generateFirstRow ?lm)"
    using csv_keys_length[OF nf] by (simp add: g csv_row_def)
  have x: "\<forall>lm. xml_labels md FIELD_LABEL [] = Inr lm \<longrightarrow>
          generateFirstRow lm = map fst lm
          \<and> (c \<in> set (generateFirstRow lm) \<longleftrightarrow> in_dict (map_of md (str ''force'')) c)
          \<and> (\<forall>element row. xml_row E lm element = Inr row \<longrightarrow>
                length row = length (generateFirstRow lm))"
  proof (intro allI impI)
    fix lm assume a: "xml_labels md FIELD_LABEL [] = Inr lm"
    have keys: "fst ` set lm = {i \<in> set FIELD_LABEL. xml_locator md i \<noteq> Inr None}"
      using xml_labels_keys[OF a] by simp
    have nfx: "str ''full_addr'' \<notin> fst ` set lm"
      using xml_locator_full_addr[OF rf assms(2,3)] by (simp add: keys)
    have gx: "generateFirstRow lm = map fst lm"
      using nfx by (rule generateFirstRow_plain)
    have kx: "c \<in> set (generateFirstRow lm) \<longleftrightarrow> in_dict (map_of md (str ''force'')) c"
      using xml_locator_address[OF assms(3,4)] address_labels_are_fields[OF assms(4)]
      by (simp add: gx keys)
    have lx: "\<forall>element row. xml_row E lm element = Inr row \<longrightarrow>
        length row = length (generateFirstRow lm)"
      using xml_keys_length[OF nfx] by (simp add: gx xml_row_def)
    show "generateFirstRow lm = map fst lm
          \<and> (c \<in> set (generateFirstRow lm) \<longleftrightarrow> in_dict (map_of md (str ''force'')) c)
          \<and> (\<forall>element row. xml_row E lm element = Inr row \<longrightarrow>
                length row = length (generateFirstRow lm))"
      using gx kx lx by blast
  qed
  have b: "\<forall>header rows row v.
          content = header # rows \<and> c \<notin> set header
          \<and> row \<in> set (tl (blank_fill_rows content)) \<and> (c, v) \<in> set (zip LABELS row)
          \<longrightarrow> v = []"
    using blank_fill_cells by blast
  have h: "hd (blank_fill_rows content) = LABELS"
    by (simp add: blank_fill_rows_def)
  show ?thesis
    using g k l x address_label_in_LABELS[OF assms(4)] h b by blast
qed

theorem address_columns_without_address_witness:
  "schema_ok md_plain
   \<and> \<not> has_key (info_of md_plain) (str ''full_addr'')
   \<and> \<not> has_key (info_of md_plain) (str ''address'')
   \<and> str ''unit'' \<in> set ADDR_FIELD_LABEL
   \<and> str ''unit'' \<notin> set (generateFirstRow (csv_labels md_plain FIELD_LABEL []))
   \<and> str ''unit'' \<in> set LABELS"
proof -
  have 1: "\<not> has_key (info_of md_plain) (str ''full_addr'')"
    and 2: "\<not> has_key (info_of md_plain) (str ''address'')"
    by (simp_all add: md_plain_def info_of_def has_key_def)
  have 3: "str ''unit'' \<in> set ADDR_FIELD_LABEL"
    by (simp add: ADDR_FIELD_LABEL_def)
  have 4: "\<not> in_dict (map_of md_plain (str ''force'')) (str ''unit'')"
    by (simp add: md_plain_def in_dict_def)
  show ?thesis
    using address_columns_without_address[OF schema_ok_md_plain 1 2 3] 1 2 3 4
      schema_ok_md_plain
    by blast
qed

end
